theory Spec2Isabelle
  imports Main
begin

section \<open>The provider registry (src/LanguageServer/customProviders.ts)\<close>

text \<open>
  The numeric enum \<open>Version\<close> comes from the package \<open>vscode-cpptools\<close>; the
  code only compares its members, so a version is a natural number and \<open>v0\<close>, \<open>v1\<close>,
  \<open>v2\<close> are the first three.
\<close>

type_synonym Version = nat

abbreviation v0 :: Version where "v0 \<equiv> 0"
abbreviation v1 :: Version where "v1 \<equiv> 1"
abbreviation v2 :: Version where "v2 \<equiv> 2"

text \<open>
  A provider object as the registry reads it. A string property is \<open>None\<close> when the
  object does not carry it (\<open>undefined\<close>); a method is only ever tested for presence
  here, so it is a flag.
\<close>

record CustomConfigurationProvider =
  name :: "string option"
  extensionId :: "string option"
  canProvideConfiguration :: bool
  provideConfigurations :: bool
  dispose :: bool
  canProvideBrowseConfiguration :: bool
  provideBrowseConfiguration :: bool

text \<open>JavaScript truthiness of an optional string: defined and not empty.\<close>

definition truthy :: "string option \<Rightarrow> bool" where
  "truthy s = (case s of None \<Rightarrow> False | Some t \<Rightarrow> t \<noteq> [])"

record CustomProviderWrapper =
  provider :: CustomConfigurationProvider
  isReady :: bool
  version :: Version

text \<open>The constructor: readiness is read from the declared version, before the promotion.\<close>

definition new_CustomProviderWrapper ::
    "CustomConfigurationProvider \<Rightarrow> Version \<Rightarrow> CustomProviderWrapper" where
  "new_CustomProviderWrapper p ver =
     \<lparr> provider = p,
       isReady = (ver < v2),
       version = (if truthy (extensionId p) \<and> ver = v0 then v1 else ver) \<rparr>"

definition set_isReady :: "bool \<Rightarrow> CustomProviderWrapper \<Rightarrow> CustomProviderWrapper" where
  "set_isReady ready w = w\<lparr>isReady := ready\<rparr>"

definition isValid :: "CustomProviderWrapper \<Rightarrow> bool" where
  "isValid w =
     (let p = provider w;
          valid = (truthy (name p) \<and> canProvideConfiguration p \<and> provideConfigurations p);
          valid = (if valid \<and> version w > v0
                   then truthy (extensionId p) \<and> dispose p else valid);
          valid = (if valid \<and> version w > v1
                   then canProvideBrowseConfiguration p \<and> provideBrowseConfiguration p
                   else valid)
      in valid)"

definition wrapper_name :: "CustomProviderWrapper \<Rightarrow> string option" where
  "wrapper_name w = name (provider w)"

definition wrapper_extensionId :: "CustomProviderWrapper \<Rightarrow> string option" where
  "wrapper_extensionId w =
     (if version w = v0 then name (provider w) else extensionId (provider w))"

text \<open>
  What a call of the wrapper's \<open>dispose\<close> does with the wrapped provider: nothing, a
  call of its \<open>dispose\<close>, or the TypeError of calling a method the object lacks.
\<close>

datatype dispose_effect = NoOp | ProviderDisposeCalled | DisposeTypeError

definition wrapper_dispose :: "CustomProviderWrapper \<Rightarrow> dispose_effect" where
  "wrapper_dispose w =
     (if version w \<noteq> v0
      then (if dispose (provider w) then ProviderDisposeCalled else DisposeTypeError)
      else NoOp)"

text \<open>
  Console output, one constructor per message of the source; the interpolated part of a
  message is the constructor's argument.
\<close>

datatype console_msg =
    Warn_IntelliSenseDisabled
  | Error_NotRegistered_Missing "string list"
  | Error_InvalidProvider
  | Error_AlreadyRegistered "string option"
  | Warn_NotRegistered string
  | Warn_DuplicateName

text \<open>
  The collection: a JavaScript \<open>Map\<close> keeps its keys in insertion order, and \<open>set\<close>
  on a key it holds replaces the value in place. The console is threaded with it.
\<close>

record CustomConfigurationProviderCollection =
  providers :: "(string option \<times> CustomProviderWrapper) list"
  console :: "console_msg list"

definition empty_collection :: CustomConfigurationProviderCollection where
  "empty_collection = \<lparr> providers = [], console = [] \<rparr>"

definition map_has :: "('k \<times> 'v) list \<Rightarrow> 'k \<Rightarrow> bool" where
  "map_has m k = (map_of m k \<noteq> None)"

fun map_set :: "'k \<Rightarrow> 'v \<Rightarrow> ('k \<times> 'v) list \<Rightarrow> ('k \<times> 'v) list" where
  "map_set k v [] = [(k, v)]"
| "map_set k v ((k', v') # m) = (if k' = k then (k, v) # m else (k', v') # map_set k v m)"

definition map_delete :: "'k \<Rightarrow> ('k \<times> 'v) list \<Rightarrow> ('k \<times> 'v) list" where
  "map_delete k m = filter (\<lambda>e. fst e \<noteq> k) m"

definition logProblems ::
    "CustomConfigurationProvider \<Rightarrow> Version \<Rightarrow> console_msg" where
  "logProblems p ver =
     Error_NotRegistered_Missing
       ((if \<not> truthy (name p) then [''name''] else [])
        @ (if ver \<noteq> v0 \<and> \<not> truthy (extensionId p) then [''extensionId''] else [])
        @ (if \<not> canProvideConfiguration p then [''canProvideConfiguration''] else [])
        @ (if \<not> provideConfigurations p then [''canProvideConfiguration''] else [])
        @ (if ver \<noteq> v0 \<and> \<not> dispose p then [''dispose''] else [])
        @ (if ver \<ge> v2 \<and> \<not> canProvideBrowseConfiguration p
           then [''canProvideBrowseConfiguration''] else [])
        @ (if ver \<ge> v2 \<and> \<not> provideBrowseConfiguration p
           then [''provideBrowseConfiguration''] else []))"

datatype id_or_provider = Id string | Provider CustomConfigurationProvider

definition getId :: "id_or_provider \<Rightarrow> string \<times> console_msg list" where
  "getId x =
     (case x of
        Id s \<Rightarrow> (s, [])
      | Provider p \<Rightarrow>
          (if truthy (extensionId p) then (the (extensionId p), [])
           else if truthy (name p) then (the (name p), [])
           else ([], [Error_InvalidProvider])))"

definition size_of :: "CustomConfigurationProviderCollection \<Rightarrow> nat" where
  "size_of c = length (providers c)"

text \<open>
  \<open>add\<close>. The setting \<open>intelliSenseEngine\<close> is read from \<open>CppSettings\<close>, which is
  outside these sources: it is the first argument.
\<close>

definition add ::
    "string \<Rightarrow> CustomConfigurationProvider \<Rightarrow> Version \<Rightarrow>
     CustomConfigurationProviderCollection \<Rightarrow> bool \<times> CustomConfigurationProviderCollection" where
  "add intelliSenseEngine p ver c =
     (if intelliSenseEngine = ''Disabled''
      then (False, c\<lparr>console := console c @ [Warn_IntelliSenseDisabled]\<rparr>)
      else
        let wrapper = new_CustomProviderWrapper p ver in
        if \<not> isValid wrapper
        then (False, c\<lparr>console := console c @ [logProblems p ver]\<rparr>)
        else
          let exists =
                (case map_of (providers c) (wrapper_extensionId wrapper) of
                   None \<Rightarrow> False
                 | Some existing \<Rightarrow> version existing = v0 \<and> version wrapper = v0)
          in if \<not> exists
             then (True,
                   c\<lparr>providers := map_set (wrapper_extensionId wrapper) wrapper (providers c)\<rparr>)
             else (False,
                   c\<lparr>console :=
                       console c @ [Error_AlreadyRegistered (wrapper_extensionId wrapper)]\<rparr>))"

definition get ::
    "CustomConfigurationProviderCollection \<Rightarrow> id_or_provider \<Rightarrow> CustomProviderWrapper option" where
  "get c x = map_of (providers c) (Some (fst (getId x)))"

definition remove ::
    "CustomConfigurationProvider \<Rightarrow> CustomConfigurationProviderCollection \<Rightarrow>
     CustomConfigurationProviderCollection" where
  "remove p c =
     (let (i, msgs) = getId (Provider p) in
      if map_has (providers c) (Some i)
      then c\<lparr>providers := map_delete (Some i) (providers c), console := console c @ msgs\<rparr>
      else c\<lparr>console := console c @ msgs @ [Warn_NotRegistered i]\<rparr>)"

text \<open>
  \<open>checkId\<close>: the \<open>forEach\<close> callback updates the two locals \<open>found\<close> and
  \<open>noUpdate\<close>; the result is the identifier and the warning it may log.
\<close>

definition checkId_step ::
    "string option \<Rightarrow> CustomProviderWrapper \<Rightarrow> CustomProviderWrapper list \<times> bool \<Rightarrow>
     CustomProviderWrapper list \<times> bool" where
  "checkId_step providerId w acc =
     (case acc of (found, noUpdate) \<Rightarrow>
        if wrapper_extensionId w = providerId then (found, True)
        else if wrapper_name w = providerId \<and> version w \<noteq> v0 then (found @ [w], noUpdate)
        else (found, noUpdate))"

definition checkId ::
    "CustomConfigurationProviderCollection \<Rightarrow> string option \<Rightarrow>
     string option \<times> console_msg list" where
  "checkId c providerId =
     (if \<not> truthy providerId then (providerId, [])
      else
        case fold (checkId_step providerId) (map snd (providers c)) ([], False) of
          (found, noUpdate) \<Rightarrow>
            if noUpdate then (providerId, [])
            else if length found = 1 then (wrapper_extensionId (hd found), [])
            else if length found > 1 then (providerId, [Warn_DuplicateName])
            else (providerId, []))"

text \<open>The wrappers the collection holds, in the order \<open>forEach\<close> visits them.\<close>

definition registered :: "CustomConfigurationProviderCollection \<Rightarrow> CustomProviderWrapper list" where
  "registered c = map snd (providers c)"

section \<open>The configuration store (src/LanguageServer/configurations.ts)\<close>

subsection \<open>The document\<close>

text \<open>
  An optional property is \<open>None\<close> when the object does not carry it. The field
  \<open>name\<close> of a configuration is \<open>config_name\<close> here and the field \<open>version\<close>
  of the document is \<open>json_version\<close>, since the provider and its wrapper own those
  names above.
\<close>

datatype bool_or_string = Bool bool | Str string

record Browse =
  path :: "string list option"
  limitSymbolsToIncludedHeaders :: "bool_or_string option"
  databaseFilename :: "string option"

record Configuration =
  config_name :: string
  compilerPath :: "string option"
  cStandard :: "string option"
  cppStandard :: "string option"
  includePath :: "string list option"
  macFrameworkPath :: "string list option"
  windowsSdkVersion :: "string option"
  "defines" :: "string list option"
  intelliSenseMode :: "string option"
  compileCommands :: "string option"
  forcedInclude :: "string list option"
  configurationProvider :: "string option"
  browse :: "Browse option"

datatype env_value = EnvString string | EnvList "string list"

type_synonym Environment = "(string \<times> env_value) list"

record ConfigurationJson =
  configurations :: "Configuration list"
  env :: "Environment option"
  json_version :: "int option"

definition configVersion :: int where
  "configVersion = 4"

definition new_Configuration :: "string \<Rightarrow> Configuration" where
  "new_Configuration n =
     \<lparr> config_name = n, compilerPath = None, cStandard = None, cppStandard = None,
       includePath = None, macFrameworkPath = None, windowsSdkVersion = None, defines = None,
       intelliSenseMode = None, compileCommands = None, forcedInclude = None,
       configurationProvider = None, browse = None \<rparr>"

text \<open>\<open>process.platform\<close> is the argument \<open>platform\<close> wherever the source reads it.\<close>

definition getDefaultConfig :: "string \<Rightarrow> Configuration" where
  "getDefaultConfig platform =
     (if platform = ''darwin'' then new_Configuration ''Mac''
      else if platform = ''win32'' then new_Configuration ''Win32''
      else new_Configuration ''Linux'')"

definition getDefaultCppProperties :: "string \<Rightarrow> ConfigurationJson" where
  "getDefaultCppProperties platform =
     \<lparr> configurations = [getDefaultConfig platform], env = None,
       json_version = Some configVersion \<rparr>"

subsection \<open>Collaborators outside these sources\<close>

text \<open>
  \<open>CppSettings\<close> (src/LanguageServer/settings.ts) is not among the sources: the
  store only reads its typed accessors, so the settings are a record of their values,
  \<open>None\<close> for the \<open>null\<close> of an unset setting.
\<close>

record CppSettings =
  settings_defaultIncludePath :: "string list option"
  settings_defaultDefines :: "string list option"
  settings_defaultMacFrameworkPath :: "string list option"
  settings_defaultWindowsSdkVersion :: "string option"
  settings_defaultForcedInclude :: "string list option"
  settings_defaultCompileCommands :: "string option"
  settings_defaultCompilerPath :: "string option"
  settings_defaultCStandard :: "string option"
  settings_defaultCppStandard :: "string option"
  settings_defaultIntelliSenseMode :: "string option"
  settings_defaultConfigurationProvider :: "string option"
  settings_defaultBrowsePath :: "string list option"
  settings_defaultLimitSymbolsToIncludedHeaders :: "bool option"
  settings_defaultDatabaseFilename :: "string option"

text \<open>
  What \<open>JSON.parse\<close> hands to the guard of \<open>parsePropertiesFile\<close>: a falsy value,
  a value without a \<open>configurations\<close> property, or a document.
\<close>

datatype json_value = JNull | JNoConfigurations | JDocument ConfigurationJson

text \<open>
  Everything a call reads from outside the object: the platform, the settings, the
  process-wide provider collection, the text \<open>fs.readFileSync\<close> returns for the
  properties file (\<open>None\<close> when it throws), \<open>JSON.parse\<close> (\<open>None\<close> when it throws a
  SyntaxError), whether \<open>fs.writeFileSync\<close> succeeds, \<open>util.resolveVariables\<close> of
  src/common.ts (its first argument is \<open>None\<close> for \<open>null\<close>), the base name of the
  root folder and the A/B setting \<open>UseRecursiveIncludes\<close>.
\<close>

record Host =
  platform :: string
  settings :: CppSettings
  customConfigProviders :: CustomConfigurationProviderCollection
  readFileSync :: "string option"
  JSON_parse :: "string \<Rightarrow> json_value option"
  writeFileSync_succeeds :: bool
  util_resolveVariables :: "string option \<Rightarrow> Environment \<Rightarrow> string"
  rootBasename :: string
  UseRecursiveIncludes :: bool

subsection \<open>Variable resolution and the per-property merge\<close>

text \<open>\<open>String.prototype.split\<close> at a one-character separator.\<close>

fun split :: "char \<Rightarrow> string \<Rightarrow> string list" where
  "split sep [] = [[]]"
| "split sep (c # cs) =
     (if c = sep then [] # split sep cs
      else (case split sep cs of [] \<Rightarrow> [[c]] | w # ws \<Rightarrow> (c # w) # ws))"

definition default_token :: string where
  "default_token = ''${default}''"

definition resolveDefaults :: "string list \<Rightarrow> string list option \<Rightarrow> string list" where
  "resolveDefaults entries defaultValue =
     fold (\<lambda>entry result.
             if entry = default_token
             then (case defaultValue of None \<Rightarrow> result | Some d \<Rightarrow> result @ d)
             else result @ [entry])
          entries []"

definition resolveAndSplit ::
    "(string option \<Rightarrow> Environment \<Rightarrow> string) \<Rightarrow> string list option \<Rightarrow>
     string list option \<Rightarrow> Environment \<Rightarrow> string list" where
  "resolveAndSplit rv paths defaultValue e =
     (case paths of
        None \<Rightarrow> []
      | Some ps \<Rightarrow>
          fold (\<lambda>entry result.
                  let entries = filter (\<lambda>x. x \<noteq> []) (split (CHR '';'') (rv (Some entry) e));
                      entries = resolveDefaults entries defaultValue
                  in result @ entries)
               ps [])"

text \<open>
  \<open>updateConfiguration\<close> has three overload signatures; each is one definition, with
  the branches of the shared body that its argument types can reach. The private
  \<open>resolveVariables\<close> is inlined in the first two.
\<close>

definition updateConfiguration_string ::
    "(string option \<Rightarrow> Environment \<Rightarrow> string) \<Rightarrow> string option \<Rightarrow> string option \<Rightarrow>
     Environment \<Rightarrow> string option" where
  "updateConfiguration_string rv property defaultValue e =
     (if property \<noteq> None \<or> defaultValue \<noteq> None
      then Some (rv (if property = None \<or> property = Some default_token
                     then defaultValue else property) e)
      else property)"

definition updateConfiguration_boolean ::
    "(string option \<Rightarrow> Environment \<Rightarrow> string) \<Rightarrow> bool_or_string option \<Rightarrow> bool option \<Rightarrow>
     Environment \<Rightarrow> bool_or_string option" where
  "updateConfiguration_boolean rv property defaultValue e =
     (case property of
        Some (Str s) \<Rightarrow>
          (if s = default_token
           then (case defaultValue of
                   Some b \<Rightarrow> Some (Bool b)
                 | None \<Rightarrow> Some (Str (rv None e)))
           else Some (Str (rv (Some s) e)))
      | Some (Bool b) \<Rightarrow> Some (Bool b)
      | None \<Rightarrow> (case defaultValue of Some b \<Rightarrow> Some (Bool b) | None \<Rightarrow> None))"

definition updateConfiguration_list ::
    "(string option \<Rightarrow> Environment \<Rightarrow> string) \<Rightarrow> string list option \<Rightarrow>
     string list option \<Rightarrow> Environment \<Rightarrow> string list option" where
  "updateConfiguration_list rv property defaultValue e =
     (if property \<noteq> None \<or> defaultValue \<noteq> None
      then (if property \<noteq> None then Some (resolveAndSplit rv property defaultValue e)
            else Some (resolveAndSplit rv defaultValue (Some []) e))
      else property)"

subsection \<open>The state of a \<open>CppProperties\<close> object\<close>

text \<open>
  The field \<open>configurationJson\<close> starts as \<open>null\<close> and the code tests it against
  \<open>undefined\<close>, so the three are kept apart.
\<close>

datatype 'a reference = Undefined | Null | Object 'a

datatype exception = ReadError | SyntaxError | InvalidConfigurationFile | TypeError

datatype ui_message =
    ErrorMessage_FailedToParse exception
  | ErrorMessage_UnknownVersion
  | WarningMessage_UpdateFailed

datatype event =
    ConfigurationsChanged "Configuration list"
  | SelectionChanged int
  | ConfigurationEditCommand

text \<open>
  Beside the fields of the class: the messages shown to the user, the documents written
  to the properties file and the events fired, each in order. The file watchers and the
  fallback time are left out; no function below reads them.
\<close>

record CppProperties =
  propertiesFile :: "string option"
  configurationJson :: "ConfigurationJson reference"
  currentConfigurationIndex :: int
  defaultCompilerPath :: "string option"
  defaultCStandard :: "string option"
  defaultCppStandard :: "string option"
  defaultIncludes :: "string list option"
  defaultFrameworks :: "string list option"
  defaultWindowsSdkVersion :: "string option"
  vcpkgIncludes :: "string list"
  vcpkgPathReady :: bool
  defaultIntelliSenseMode :: "string option"
  configurationIncomplete :: bool
  messages :: "ui_message list"
  written :: "ConfigurationJson list"
  fired :: "event list"

datatype outcome = Returns CppProperties | Throws exception CppProperties

text \<open>The first index at which a predicate holds: the loops that return or break on a match.\<close>

fun first_index :: "('a \<Rightarrow> bool) \<Rightarrow> 'a list \<Rightarrow> nat option" where
  "first_index P [] = None"
| "first_index P (x # xs) =
     (if P x then Some 0 else map_option Suc (first_index P xs))"

definition platform_name :: "string \<Rightarrow> string" where
  "platform_name pf =
     (if pf = ''darwin'' then ''Mac'' else if pf = ''win32'' then ''Win32'' else ''Linux'')"

text \<open>
  \<open>getConfigIndexForPlatform\<close>: at each of its three call sites the argument
  \<open>config\<close> is the object \<open>this.configurationJson\<close>, so one list is both the bound
  of the loop and what it indexes.
\<close>

definition getConfigIndexForPlatform :: "string \<Rightarrow> Configuration list \<Rightarrow> int" where
  "getConfigIndexForPlatform pf configs =
     (case first_index (\<lambda>c. config_name c = platform_name pf) configs of
        Some i \<Rightarrow> int i
      | None \<Rightarrow> int (length configs) - 1)"

definition getIntelliSenseModeForPlatform :: "string \<Rightarrow> string \<Rightarrow> string" where
  "getIntelliSenseModeForPlatform pf n =
     (if n = ''Linux'' then ''gcc-x64''
      else if n = ''Mac'' then ''clang-x64''
      else if n = ''Win32'' then ''msvc-x64''
      else if pf = ''win32'' then ''msvc-x64''
      else if pf = ''darwin'' then ''clang-x64''
      else ''gcc-x64'')"

definition index_in_range :: "int \<Rightarrow> 'a list \<Rightarrow> bool" where
  "index_in_range i xs = (0 \<le> i \<and> i < int (length xs))"

definition resetToDefaultSettings :: "Host \<Rightarrow> bool \<Rightarrow> CppProperties \<Rightarrow> CppProperties" where
  "resetToDefaultSettings host resetIndex st =
     (let doc = getDefaultCppProperties (platform host) in
      st\<lparr> configurationJson := Object doc,
          currentConfigurationIndex :=
            (if resetIndex \<or> \<not> index_in_range (currentConfigurationIndex st) (configurations doc)
             then getConfigIndexForPlatform (platform host) (configurations doc)
             else currentConfigurationIndex st),
          configurationIncomplete := True \<rparr>)"

subsection \<open>The defaulting pass\<close>

definition applyDefaults_assigns :: "Host \<Rightarrow> CppProperties \<Rightarrow> bool" where
  "applyDefaults_assigns host st =
     (let s = settings host in
      settings_defaultIncludePath s = None
      \<or> settings_defaultDefines s = None
      \<or> (settings_defaultMacFrameworkPath s = None \<and> platform host = ''darwin'')
      \<or> (settings_defaultWindowsSdkVersion s = None \<and> truthy (defaultWindowsSdkVersion st)
          \<and> platform host = ''win32'')
      \<or> (settings_defaultCompilerPath s = None \<and> truthy (defaultCompilerPath st))
      \<or> (settings_defaultCStandard s = None \<and> truthy (defaultCStandard st))
      \<or> (settings_defaultCppStandard s = None \<and> truthy (defaultCppStandard st))
      \<or> settings_defaultIntelliSenseMode s = None)"

definition applyDefaults_to :: "Host \<Rightarrow> CppProperties \<Rightarrow> Configuration \<Rightarrow> Configuration" where
  "applyDefaults_to host st configuration =
     (let s = settings host;
          rootFolder = (if UseRecursiveIncludes host then ''${workspaceFolder}/**''
                        else ''${workspaceFolder}'')
      in configuration\<lparr>
           includePath :=
             (if settings_defaultIncludePath s = None then Some (rootFolder # vcpkgIncludes st)
              else includePath configuration),
           defines :=
             (if settings_defaultDefines s = None
              then Some (if platform host = ''win32'' then [''_DEBUG'', ''UNICODE'', ''_UNICODE'']
                         else [])
              else defines configuration),
           macFrameworkPath :=
             (if settings_defaultMacFrameworkPath s = None \<and> platform host = ''darwin''
              then defaultFrameworks st else macFrameworkPath configuration),
           windowsSdkVersion :=
             (if settings_defaultWindowsSdkVersion s = None \<and> truthy (defaultWindowsSdkVersion st)
                 \<and> platform host = ''win32''
              then defaultWindowsSdkVersion st else windowsSdkVersion configuration),
           compilerPath :=
             (if settings_defaultCompilerPath s = None \<and> truthy (defaultCompilerPath st)
              then defaultCompilerPath st else compilerPath configuration),
           cStandard :=
             (if settings_defaultCStandard s = None \<and> truthy (defaultCStandard st)
              then defaultCStandard st else cStandard configuration),
           cppStandard :=
             (if settings_defaultCppStandard s = None \<and> truthy (defaultCppStandard st)
              then defaultCppStandard st else cppStandard configuration),
           intelliSenseMode :=
             (if settings_defaultIntelliSenseMode s = None
              then defaultIntelliSenseMode st else intelliSenseMode configuration) \<rparr>)"

text \<open>
  \<open>CurrentConfiguration\<close> is \<open>undefined\<close> when the index is out of range, and the
  first assignment to one of its properties is then a TypeError; with no assignment to
  make, only the flag is cleared.
\<close>

definition applyDefaultIncludePathsAndFrameworks :: "Host \<Rightarrow> CppProperties \<Rightarrow> outcome" where
  "applyDefaultIncludePathsAndFrameworks host st =
     (if configurationIncomplete st \<and> defaultIncludes st \<noteq> None \<and> defaultFrameworks st \<noteq> None
         \<and> vcpkgPathReady st
      then
        (case configurationJson st of
           Object doc \<Rightarrow>
             (let i = currentConfigurationIndex st; cs = configurations doc in
              if index_in_range i cs
              then Returns (st\<lparr> configurationJson :=
                                  Object (doc\<lparr>configurations :=
                                            cs[nat i := applyDefaults_to host st (cs ! nat i)]\<rparr>),
                                configurationIncomplete := False \<rparr>)
              else if applyDefaults_assigns host st then Throws TypeError st
              else Returns (st\<lparr>configurationIncomplete := False\<rparr>))
         | _ \<Rightarrow> Throws TypeError st)
      else Returns st)"

subsection \<open>Reconciling every entry with the settings\<close>

definition ExtendedEnvironment :: "Host \<Rightarrow> ConfigurationJson \<Rightarrow> Environment" where
  "ExtendedEnvironment host doc =
     map_set ''workspaceFolderBasename'' (EnvString (rootBasename host))
       (case env doc of None \<Rightarrow> [] | Some e \<Rightarrow> e)"

text \<open>
  The strings the regular expression of the browse-path rule matches: one of the two root
  variables, alone or followed by a backslash, a backslash and two stars, a slash, or a
  slash and two stars.
\<close>

definition matches_workspace_root :: "string \<Rightarrow> bool" where
  "matches_workspace_root v =
     (v \<in> set (concat (map (\<lambda>r. map (\<lambda>sfx. r @ sfx)
                                   [[], [CHR 0x5C], [CHR 0x5C] @ ''**'', ''/'', ''/**''])
                          [''${workspaceRoot}'', ''${workspaceFolder}''])))"

definition updateBrowse ::
    "Host \<Rightarrow> Environment \<Rightarrow> string list option \<Rightarrow> Browse option \<Rightarrow> Browse" where
  "updateBrowse host e resolvedIncludePath b =
     (let s = settings host;
          rv = util_resolveVariables host;
          b0 = (case b of
                  None \<Rightarrow> \<lparr> path = None, limitSymbolsToIncludedHeaders = None,
                             databaseFilename = None \<rparr>
                | Some x \<Rightarrow> x)
      in b0\<lparr>
           path :=
             (case path b0 of
                None \<Rightarrow>
                  (case settings_defaultBrowsePath s of
                     Some d \<Rightarrow> Some d
                   | None \<Rightarrow>
                       (case resolvedIncludePath of
                          Some ip \<Rightarrow>
                            Some (if \<not> list_ex matches_workspace_root ip
                                  then ip @ [''${workspaceFolder}''] else ip)
                        | None \<Rightarrow> None))
              | Some p \<Rightarrow> updateConfiguration_list rv (Some p) (settings_defaultBrowsePath s) e),
           limitSymbolsToIncludedHeaders :=
             updateConfiguration_boolean rv (limitSymbolsToIncludedHeaders b0)
               (settings_defaultLimitSymbolsToIncludedHeaders s) e,
           databaseFilename :=
             updateConfiguration_string rv (databaseFilename b0)
               (settings_defaultDatabaseFilename s) e \<rparr>)"

definition updateConfigurationEntry ::
    "Host \<Rightarrow> Environment \<Rightarrow> Configuration \<Rightarrow> Configuration" where
  "updateConfigurationEntry host e configuration =
     (let s = settings host;
          rv = util_resolveVariables host;
          ip = updateConfiguration_list rv (includePath configuration)
                 (settings_defaultIncludePath s) e
      in configuration\<lparr>
           includePath := ip,
           defines :=
             updateConfiguration_list rv (defines configuration) (settings_defaultDefines s) e,
           macFrameworkPath :=
             updateConfiguration_list rv (macFrameworkPath configuration)
               (settings_defaultMacFrameworkPath s) e,
           windowsSdkVersion :=
             updateConfiguration_string rv (windowsSdkVersion configuration)
               (settings_defaultWindowsSdkVersion s) e,
           forcedInclude :=
             updateConfiguration_list rv (forcedInclude configuration)
               (settings_defaultForcedInclude s) e,
           compileCommands :=
             updateConfiguration_string rv (compileCommands configuration)
               (settings_defaultCompileCommands s) e,
           compilerPath :=
             updateConfiguration_string rv (compilerPath configuration)
               (settings_defaultCompilerPath s) e,
           cStandard :=
             updateConfiguration_string rv (cStandard configuration)
               (settings_defaultCStandard s) e,
           cppStandard :=
             updateConfiguration_string rv (cppStandard configuration)
               (settings_defaultCppStandard s) e,
           intelliSenseMode :=
             updateConfiguration_string rv (intelliSenseMode configuration)
               (settings_defaultIntelliSenseMode s) e,
           configurationProvider :=
             updateConfiguration_string rv (configurationProvider configuration)
               (settings_defaultConfigurationProvider s) e,
           browse := Some (updateBrowse host e ip (browse configuration)) \<rparr>)"

definition updateServerOnFolderSettingsChange :: "Host \<Rightarrow> CppProperties \<Rightarrow> outcome" where
  "updateServerOnFolderSettingsChange host st =
     (case configurationJson st of
        Object doc \<Rightarrow>
          (let cs = map (updateConfigurationEntry host (ExtendedEnvironment host doc))
                      (configurations doc)
           in Returns (st\<lparr> configurationJson := Object (doc\<lparr>configurations := cs\<rparr>),
                             fired := fired st @ (if \<not> configurationIncomplete st
                                                  then [ConfigurationsChanged cs] else []) \<rparr>))
      | _ \<Rightarrow> Throws TypeError st)"

subsection \<open>Version migration\<close>

definition updateToVersion2 :: "ConfigurationJson \<Rightarrow> ConfigurationJson" where
  "updateToVersion2 doc = doc\<lparr>json_version := Some 2\<rparr>"

definition updateToVersion3_config :: "string \<Rightarrow> Configuration \<Rightarrow> Configuration" where
  "updateToVersion3_config pf config =
     (if config_name config = ''Mac''
         \<or> (pf = ''darwin'' \<and> config_name config \<noteq> ''Win32'' \<and> config_name config \<noteq> ''Linux'')
      then (if macFrameworkPath config = None
            then config\<lparr>macFrameworkPath :=
                          Some [''/System/Library/Frameworks'', ''/Library/Frameworks'']\<rparr>
            else config)
      else config)"

definition updateToVersion3 :: "string \<Rightarrow> ConfigurationJson \<Rightarrow> ConfigurationJson" where
  "updateToVersion3 pf doc =
     doc\<lparr> json_version := Some 3,
          configurations := map (updateToVersion3_config pf) (configurations doc) \<rparr>"

text \<open>
  The body of the loop of \<open>updateToVersion4\<close> is four guarded assignments, made one
  after the other; each is a function of the configuration, applied in the source's
  order.
\<close>

definition backfill_intelliSenseMode :: "Host \<Rightarrow> Configuration \<Rightarrow> Configuration" where
  "backfill_intelliSenseMode host config =
     (if intelliSenseMode config = None
         \<and> \<not> truthy (settings_defaultIntelliSenseMode (settings host))
      then config\<lparr>intelliSenseMode :=
                    Some (getIntelliSenseModeForPlatform (platform host) (config_name config))\<rparr>
      else config)"

definition backfill_compilerPath :: "Host \<Rightarrow> CppProperties \<Rightarrow> Configuration \<Rightarrow> Configuration" where
  "backfill_compilerPath host st config =
     (if compilerPath config = None \<and> truthy (defaultCompilerPath st)
         \<and> \<not> truthy (compileCommands config)
         \<and> \<not> truthy (settings_defaultCompilerPath (settings host))
      then config\<lparr>compilerPath := defaultCompilerPath st\<rparr>
      else config)"

definition backfill_cStandard :: "Host \<Rightarrow> CppProperties \<Rightarrow> Configuration \<Rightarrow> Configuration" where
  "backfill_cStandard host st config =
     (if \<not> truthy (cStandard config) \<and> truthy (defaultCStandard st)
         \<and> \<not> truthy (settings_defaultCStandard (settings host))
      then config\<lparr>cStandard := defaultCStandard st\<rparr>
      else config)"

definition backfill_cppStandard :: "Host \<Rightarrow> CppProperties \<Rightarrow> Configuration \<Rightarrow> Configuration" where
  "backfill_cppStandard host st config =
     (if \<not> truthy (cppStandard config) \<and> truthy (defaultCppStandard st)
         \<and> \<not> truthy (settings_defaultCppStandard (settings host))
      then config\<lparr>cppStandard := defaultCppStandard st\<rparr>
      else config)"

definition updateToVersion4_config ::
    "Host \<Rightarrow> CppProperties \<Rightarrow> Configuration \<Rightarrow> Configuration" where
  "updateToVersion4_config host st config =
     backfill_cppStandard host st
       (backfill_cStandard host st
         (backfill_compilerPath host st
           (backfill_intelliSenseMode host config)))"

definition updateToVersion4 ::
    "Host \<Rightarrow> CppProperties \<Rightarrow> ConfigurationJson \<Rightarrow> ConfigurationJson" where
  "updateToVersion4 host st doc =
     doc\<lparr> json_version := Some 4,
          configurations := map (updateToVersion4_config host st) (configurations doc) \<rparr>"

text \<open>
  The migration block of \<open>parsePropertiesFile\<close>: the document, the message it shows
  and whether it made the document dirty.
\<close>

definition migrate ::
    "Host \<Rightarrow> CppProperties \<Rightarrow> ConfigurationJson \<Rightarrow> ConfigurationJson \<times> ui_message list \<times> bool" where
  "migrate host st doc =
     (if json_version doc \<noteq> Some configVersion
      then
        (let doc = (if json_version doc = None then updateToVersion2 doc else doc);
             doc = (if json_version doc = Some 2 then updateToVersion3 (platform host) doc
                    else doc)
         in if json_version doc = Some 3
            then (updateToVersion4 host st doc, [], True)
            else (doc\<lparr>json_version := Some configVersion\<rparr>, [ErrorMessage_UnknownVersion], True))
      else (doc, [], False))"

subsection \<open>Parsing the properties file\<close>

text \<open>
  The selection follows the name of the configuration selected before the change: the
  loop stops at the first entry of the new list with that name.
\<close>

definition remap_index :: "CppProperties \<Rightarrow> Configuration list \<Rightarrow> int" where
  "remap_index st newConfigurations =
     (let i = currentConfigurationIndex st in
      case configurationJson st of
        Object old \<Rightarrow>
          (if \<not> configurationIncomplete st \<and> index_in_range i (configurations old)
           then (case first_index
                        (\<lambda>c. config_name c = config_name (configurations old ! nat i))
                        newConfigurations of
                   Some j \<Rightarrow> int j
                 | None \<Rightarrow> i)
           else i)
      | _ \<Rightarrow> i)"

definition normalize_index :: "string \<Rightarrow> Configuration list \<Rightarrow> int \<Rightarrow> int" where
  "normalize_index pf configs i =
     (if \<not> index_in_range i configs then getConfigIndexForPlatform pf configs else i)"

definition checkProviderIds ::
    "CustomConfigurationProviderCollection \<Rightarrow> Configuration list \<Rightarrow> Configuration list \<times> bool" where
  "checkProviderIds c configs =
     (map (\<lambda>config. config\<lparr>configurationProvider :=
                               fst (checkId c (configurationProvider config))\<rparr>) configs,
      list_ex (\<lambda>config. fst (checkId c (configurationProvider config))
                          \<noteq> configurationProvider config) configs)"

definition removeDisallowedOverrides :: "Environment option \<Rightarrow> Environment option" where
  "removeDisallowedOverrides e =
     map_option (\<lambda>m. map_delete ''default''
                       (map_delete ''workspaceFolderBasename''
                         (map_delete ''workspaceFolder''
                           (map_delete ''workspaceRoot'' m)))) e"

definition parse_failure :: "exception \<Rightarrow> CppProperties \<Rightarrow> outcome" where
  "parse_failure err st = Throws err (st\<lparr>messages := messages st @ [ErrorMessage_FailedToParse err]\<rparr>)"

definition acceptDocument :: "Host \<Rightarrow> CppProperties \<Rightarrow> ConfigurationJson \<Rightarrow> CppProperties" where
  "acceptDocument host st newJson =
     (let i = normalize_index (platform host) (configurations newJson)
                (remap_index st (configurations newJson));
          (cs, dirty1) = checkProviderIds (customConfigProviders host) (configurations newJson);
          doc = newJson\<lparr>configurations := cs, env := removeDisallowedOverrides (env newJson)\<rparr>;
          (doc, shown, dirty2) = migrate host st doc;
          dirty = (dirty1 \<or> dirty2)
      in st\<lparr> configurationJson := Object doc,
             currentConfigurationIndex := i,
             configurationIncomplete := False,
             messages := messages st @ shown
                         @ (if dirty \<and> \<not> writeFileSync_succeeds host
                            then [WarningMessage_UpdateFailed] else []),
             written := written st @ (if dirty \<and> writeFileSync_succeeds host then [doc] else []) \<rparr>)"

text \<open>
  \<open>parsePropertiesFile\<close>. Everything the \<open>try\<close> block throws is shown to the user
  and thrown again. With no properties file the handler itself throws on
  \<open>this.propertiesFile.fsPath\<close>, before it shows anything.
\<close>

definition parsePropertiesFile :: "Host \<Rightarrow> CppProperties \<Rightarrow> outcome" where
  "parsePropertiesFile host st =
     (case propertiesFile st of
        None \<Rightarrow> Throws TypeError st
      | Some fsPath \<Rightarrow>
          (case readFileSync host of
             None \<Rightarrow> parse_failure ReadError st
           | Some readResults \<Rightarrow>
               if readResults = [] then Returns st
               else
                 (case JSON_parse host readResults of
                    None \<Rightarrow> parse_failure SyntaxError st
                  | Some JNull \<Rightarrow> parse_failure InvalidConfigurationFile st
                  | Some JNoConfigurations \<Rightarrow> parse_failure InvalidConfigurationFile st
                  | Some (JDocument newJson) \<Rightarrow>
                      if configurations newJson = []
                      then parse_failure InvalidConfigurationFile st
                      else Returns (acceptDocument host st newJson))))"

subsection \<open>Reconciliation and the operations that start it\<close>

definition fix_index :: "Host \<Rightarrow> CppProperties \<Rightarrow> outcome" where
  "fix_index host st =
     (case configurationJson st of
        Undefined \<Rightarrow> Returns st
      | Null \<Rightarrow> Throws TypeError st
      | Object doc \<Rightarrow>
          Returns (st\<lparr>currentConfigurationIndex :=
                        normalize_index (platform host) (configurations doc)
                          (currentConfigurationIndex st)\<rparr>))"

definition and_then :: "outcome \<Rightarrow> (CppProperties \<Rightarrow> outcome) \<Rightarrow> outcome" where
  "and_then r f = (case r of Returns st \<Rightarrow> f st | Throws err st \<Rightarrow> Throws err st)"

definition handleConfigurationChange :: "Host \<Rightarrow> CppProperties \<Rightarrow> outcome" where
  "handleConfigurationChange host st =
     and_then
       (and_then
          (and_then
             (if propertiesFile st \<noteq> None
              then and_then (parsePropertiesFile host st) (fix_index host)
              else Returns st)
             (\<lambda>st. Returns (if configurationJson st = Undefined
                             then resetToDefaultSettings host True st else st)))
          (applyDefaultIncludePathsAndFrameworks host))
       (updateServerOnFolderSettingsChange host)"

definition select :: "int \<Rightarrow> CppProperties \<Rightarrow> outcome" where
  "select index st =
     (case configurationJson st of
        Object doc \<Rightarrow>
          (if index = int (length (configurations doc))
           then Returns (st\<lparr>fired := fired st @ [ConfigurationEditCommand]\<rparr>)
           else Returns (st\<lparr> currentConfigurationIndex := index,
                             fired := fired st @ [SelectionChanged index] \<rparr>))
      | _ \<Rightarrow> Throws TypeError st)"

definition onDidChangeSettings :: "Host \<Rightarrow> CppProperties \<Rightarrow> outcome" where
  "onDidChangeSettings host st =
     (if propertiesFile st = None
      then handleConfigurationChange host (resetToDefaultSettings host True st)
      else if \<not> configurationIncomplete st then handleConfigurationChange host st
      else Returns st)"

definition onDidCreate :: "Host \<Rightarrow> string \<Rightarrow> CppProperties \<Rightarrow> outcome" where
  "onDidCreate host uri st = handleConfigurationChange host (st\<lparr>propertiesFile := Some uri\<rparr>)"

definition onDidDelete :: "Host \<Rightarrow> CppProperties \<Rightarrow> outcome" where
  "onDidDelete host st =
     handleConfigurationChange host
       (resetToDefaultSettings host True (st\<lparr>propertiesFile := None\<rparr>))"

definition onDidChange :: "Host \<Rightarrow> CppProperties \<Rightarrow> outcome" where
  "onDidChange host st = handleConfigurationChange host st"

text \<open>
  The constructor, up to the registration of the watchers: \<open>persisted\<close> is the value the
  persistent folder state holds for the index (\<open>-1\<close> when none was stored) and \<open>exists\<close>
  is what \<open>fs.existsSync\<close> answers for the properties file.
\<close>

definition initial_state :: "int \<Rightarrow> CppProperties" where
  "initial_state persisted =
     \<lparr> propertiesFile = None, configurationJson = Null,
       currentConfigurationIndex = persisted,
       defaultCompilerPath = None, defaultCStandard = None, defaultCppStandard = None,
       defaultIncludes = None, defaultFrameworks = None, defaultWindowsSdkVersion = None,
       vcpkgIncludes = [], vcpkgPathReady = False, defaultIntelliSenseMode = None,
       configurationIncomplete = True, messages = [], written = [], fired = [] \<rparr>"

definition new_CppProperties :: "Host \<Rightarrow> int \<Rightarrow> string \<Rightarrow> bool \<Rightarrow> outcome" where
  "new_CppProperties host persisted configFilePath exists =
     and_then
       (if exists
        then parsePropertiesFile host ((initial_state persisted)\<lparr>propertiesFile := Some configFilePath\<rparr>)
        else Returns (initial_state persisted))
       (\<lambda>st. Returns (case configurationJson st of
                         Object doc \<Rightarrow> st
                       | _ \<Rightarrow> resetToDefaultSettings host (currentConfigurationIndex st = - 1) st))"

text \<open>
  The completion of the asynchronous scan for vcpkg include folders, and the public
  setter \<open>CompilerDefaults\<close>: both store what they were given and reconcile.
\<close>

definition vcpkgIncludePathBuilt :: "Host \<Rightarrow> string list \<Rightarrow> CppProperties \<Rightarrow> outcome" where
  "vcpkgIncludePathBuilt host found st =
     handleConfigurationChange host
       (st\<lparr>vcpkgIncludes := vcpkgIncludes st @ found, vcpkgPathReady := True\<rparr>)"

record CompilerDefaults =
  compilerDefaults_compilerPath :: "string option"
  compilerDefaults_cStandard :: "string option"
  compilerDefaults_cppStandard :: "string option"
  compilerDefaults_includes :: "string list option"
  compilerDefaults_frameworks :: "string list option"
  compilerDefaults_windowsSdkVersion :: "string option"
  compilerDefaults_intelliSenseMode :: "string option"

definition set_CompilerDefaults :: "Host \<Rightarrow> CompilerDefaults \<Rightarrow> CppProperties \<Rightarrow> outcome" where
  "set_CompilerDefaults host compilerDefaults st =
     handleConfigurationChange host
       (st\<lparr> defaultCompilerPath := compilerDefaults_compilerPath compilerDefaults,
            defaultCStandard := compilerDefaults_cStandard compilerDefaults,
            defaultCppStandard := compilerDefaults_cppStandard compilerDefaults,
            defaultIncludes := compilerDefaults_includes compilerDefaults,
            defaultFrameworks := compilerDefaults_frameworks compilerDefaults,
            defaultWindowsSdkVersion := compilerDefaults_windowsSdkVersion compilerDefaults,
            defaultIntelliSenseMode := compilerDefaults_intelliSenseMode compilerDefaults \<rparr>)"

subsection \<open>Reading an outcome\<close>

definition state_of :: "outcome \<Rightarrow> CppProperties" where
  "state_of r = (case r of Returns st \<Rightarrow> st | Throws err st \<Rightarrow> st)"

text \<open>The getter \<open>Configurations\<close> on the state an outcome carries.\<close>

definition configurations_of :: "outcome \<Rightarrow> Configuration list" where
  "configurations_of r =
     (case configurationJson (state_of r) of Object doc \<Rightarrow> configurations doc | _ \<Rightarrow> [])"

text \<open>
  The index a reconciliation holds when it comes to the range check: the stored one,
  or the one \<open>parsePropertiesFile\<close> has moved to the selected name when it reads a
  document.
\<close>

definition index_before_normalization :: "Host \<Rightarrow> CppProperties \<Rightarrow> int" where
  "index_before_normalization host st =
     (if propertiesFile st = None then currentConfigurationIndex st
      else case readFileSync host of
             None \<Rightarrow> currentConfigurationIndex st
           | Some content \<Rightarrow>
               if content = [] then currentConfigurationIndex st
               else (case JSON_parse host content of
                       Some (JDocument newJson) \<Rightarrow> remap_index st (configurations newJson)
                     | _ \<Rightarrow> currentConfigurationIndex st))"

section \<open>Example inputs\<close>

text \<open>Two legacy providers named Foo that differ in whether they can be disposed.\<close>

definition legacy_Foo :: CustomConfigurationProvider where
  "legacy_Foo =
     \<lparr> name = Some ''Foo'', extensionId = None, canProvideConfiguration = True,
       provideConfigurations = True, dispose = False, canProvideBrowseConfiguration = False,
       provideBrowseConfiguration = False \<rparr>"

definition legacy_Foo_other :: CustomConfigurationProvider where
  "legacy_Foo_other = legacy_Foo\<lparr>dispose := True\<rparr>"

text \<open>Two providers with the identity ext.foo that differ in their display name.\<close>

definition ext_Foo :: CustomConfigurationProvider where
  "ext_Foo =
     \<lparr> name = Some ''Foo'', extensionId = Some ''ext.foo'', canProvideConfiguration = True,
       provideConfigurations = True, dispose = True, canProvideBrowseConfiguration = False,
       provideBrowseConfiguration = False \<rparr>"

definition ext_Foo_other :: CustomConfigurationProvider where
  "ext_Foo_other = ext_Foo\<lparr>name := Some ''Foo (new)''\<rparr>"

text \<open>
  A resolver with nothing to substitute: it returns its input, and the empty string for
  \<open>null\<close>.
\<close>

definition verbatim :: "string option \<Rightarrow> Environment \<Rightarrow> string" where
  "verbatim input e = (case input of None \<Rightarrow> [] | Some s \<Rightarrow> s)"

definition unset_settings :: CppSettings where
  "unset_settings =
     \<lparr> settings_defaultIncludePath = None, settings_defaultDefines = None,
       settings_defaultMacFrameworkPath = None, settings_defaultWindowsSdkVersion = None,
       settings_defaultForcedInclude = None, settings_defaultCompileCommands = None,
       settings_defaultCompilerPath = None, settings_defaultCStandard = None,
       settings_defaultCppStandard = None, settings_defaultIntelliSenseMode = None,
       settings_defaultConfigurationProvider = None, settings_defaultBrowsePath = None,
       settings_defaultLimitSymbolsToIncludedHeaders = None,
       settings_defaultDatabaseFilename = None \<rparr>"

text \<open>Three file contents, and the documents the two well-formed ones stand for.\<close>

definition malformed_text :: string where
  "malformed_text = ''{\"configurations\": [''"

definition no_configurations_text :: string where
  "no_configurations_text = ''{\"configurations\": [], \"version\": 4}''"

definition two_configurations_text :: string where
  "two_configurations_text =
     ''{\"configurations\": [{\"name\": \"Linux\"}, {\"name\": \"Release\"}], \"version\": 4}''"

definition no_configurations :: ConfigurationJson where
  "no_configurations = \<lparr> configurations = [], env = None, json_version = Some 4 \<rparr>"

definition two_configurations :: ConfigurationJson where
  "two_configurations =
     \<lparr> configurations = [new_Configuration ''Linux'', new_Configuration ''Release''],
       env = None, json_version = Some 4 \<rparr>"

definition three_configurations :: ConfigurationJson where
  "three_configurations =
     \<lparr> configurations = [new_Configuration ''Linux'', new_Configuration ''Debug'',
                          new_Configuration ''Release''],
       env = None, json_version = Some 4 \<rparr>"

definition mac_v2_document :: ConfigurationJson where
  "mac_v2_document =
     \<lparr> configurations = [new_Configuration ''Mac'', new_Configuration ''Win32''],
       env = None, json_version = Some 2 \<rparr>"

text \<open>
  \<open>JSON.parse\<close> on the texts above; every other text that is given to it below,
  the empty one among them, is no JSON text.
\<close>

definition example_JSON_parse :: "string \<Rightarrow> json_value option" where
  "example_JSON_parse content =
     (if content = no_configurations_text then Some (JDocument no_configurations)
      else if content = two_configurations_text then Some (JDocument two_configurations)
      else None)"

definition linux_host :: Host where
  "linux_host =
     \<lparr> platform = ''linux'', settings = unset_settings,
       customConfigProviders = empty_collection, readFileSync = None,
       JSON_parse = example_JSON_parse, writeFileSync_succeeds = True,
       util_resolveVariables = verbatim, rootBasename = ''project'',
       UseRecursiveIncludes = False \<rparr>"

text \<open>
  A store that has loaded a properties file with three configurations and has the third,
  Release, selected.
\<close>

definition loaded_state :: CppProperties where
  "loaded_state =
     (initial_state 2)\<lparr> propertiesFile := Some ''/project/.vscode/c_cpp_properties.json'',
                        configurationJson := Object three_configurations,
                        configurationIncomplete := False \<rparr>"

text \<open>
  Three reconciliations. The file now holds the two configurations Linux and Release:
  once with a stored index of 5, once with Release selected. And a store built without
  a properties file, on which \<open>select\<close> is called with 7 before it reconciles.
\<close>

definition reparsed :: outcome where
  "reparsed =
     handleConfigurationChange (linux_host\<lparr>readFileSync := Some two_configurations_text\<rparr>)
       (loaded_state\<lparr>currentConfigurationIndex := 5\<rparr>)"

definition reparsed_with_selection :: outcome where
  "reparsed_with_selection =
     handleConfigurationChange (linux_host\<lparr>readFileSync := Some two_configurations_text\<rparr>)
       loaded_state"

definition selected_without_file :: outcome where
  "selected_without_file =
     and_then
       (and_then
          (new_CppProperties linux_host (- 1) ''/project/.vscode/c_cpp_properties.json'' False)
          (select 7))
       (handleConfigurationChange linux_host)"

section \<open>Properties of the provider registry\<close>

lemma map_of_map_set_same: "map_of (map_set k v m) k = Some v"
  by (induction m) auto

lemma map_of_map_set_other: "k' \<noteq> k \<Longrightarrow> map_of (map_set k v m) k' = map_of m k'"
  by (induction m) auto

lemma length_map_set: "map_of m k \<noteq> None \<Longrightarrow> length (map_set k v m) = length m"
  by (induction m) auto

lemma isValid_name: "isValid w \<Longrightarrow> truthy (wrapper_name w)"
  by (auto simp: isValid_def Let_def wrapper_name_def split: if_splits)

lemma isValid_identity: "isValid w \<Longrightarrow> truthy (wrapper_extensionId w)"
  by (auto simp: isValid_def Let_def wrapper_extensionId_def split: if_splits)

lemma set_map_set: "set (map snd (map_set k v m)) \<subseteq> insert v (set (map snd m))"
proof (induction m)
  case Nil
  show ?case by simp
next
  case (Cons e m)
  obtain k' v' where e: "e = (k', v')" by (cases e)
  show ?case
  proof (cases "k' = k")
    case True
    then show ?thesis using e by auto
  next
    case False
    then show ?thesis using e Cons.IH by (simp add: subset_iff) blast
  qed
qed

text \<open>Every wrapper the collection holds passed \<open>isValid\<close> when it was added.\<close>

lemma add_keeps_valid:
  assumes "\<forall>w \<in> set (registered c). isValid w"
  shows "\<forall>w \<in> set (registered (snd (add engine p ver c))). isValid w"
proof -
  have "set (registered (snd (add engine p ver c)))
          \<subseteq> (if isValid (new_CustomProviderWrapper p ver)
              then insert (new_CustomProviderWrapper p ver) (set (registered c))
              else set (registered c))"
    using set_map_set [of "wrapper_extensionId (new_CustomProviderWrapper p ver)"
                          "new_CustomProviderWrapper p ver" "providers c"]
    by (auto simp: add_def Let_def registered_def split: option.splits)
  then show ?thesis using assms by (auto split: if_splits)
qed

text \<open>
  C1, as the code has it. The duplicate rule of \<open>add\<close> is the reverse of the claim's: an
  entry under the same identity blocks the new one only when both are legacy (v0)
  wrappers. So of two legacy providers without an identity of their own, registered
  under one name, the second is refused: \<open>add\<close> returns false, logs that the name is
  already registered and leaves the first in place. Of two providers registered at v1 or
  later with one identity, the second is accepted: \<open>add\<close> returns true both times, logs
  nothing and replaces the first wrapper by the second under the same key.
\<close>

theorem add_duplicate_by_version:
  "engine \<noteq> ''Disabled'' \<Longrightarrow>
   (ver1 = v0 \<and> ver2 = v0 \<and> \<not> truthy (extensionId p1) \<and> \<not> truthy (extensionId p2)
      \<and> name p1 = name p2
      \<and> isValid (new_CustomProviderWrapper p1 ver1) \<and> isValid (new_CustomProviderWrapper p2 ver2)
      \<and> add engine p1 ver1 c = (True, c1)
    \<longrightarrow> add engine p2 ver2 c1
          = (False, c1\<lparr>console := console c1 @ [Error_AlreadyRegistered (name p2)]\<rparr>)
        \<and> map_of (providers c1) (name p1) = Some (new_CustomProviderWrapper p1 ver1))
   \<and> (ver1 \<ge> v1 \<and> ver2 \<ge> v1 \<and> extensionId p1 = extensionId p2
      \<and> isValid (new_CustomProviderWrapper p1 ver1) \<and> isValid (new_CustomProviderWrapper p2 ver2)
      \<and> add engine p1 ver1 c = (b1, c1) \<and> add engine p2 ver2 c1 = (b2, c2)
    \<longrightarrow> b1 \<and> b2
        \<and> map_of (providers c1) (extensionId p1) = Some (new_CustomProviderWrapper p1 ver1)
        \<and> map_of (providers c2) (extensionId p2) = Some (new_CustomProviderWrapper p2 ver2)
        \<and> length (providers c2) = length (providers c1)
        \<and> console c2 = console c)"
  by (auto simp: add_def Let_def new_CustomProviderWrapper_def wrapper_extensionId_def
      map_of_map_set_same length_map_set split: option.splits if_splits)

theorem add_duplicate_by_version_witness:
  "add ''Default'' legacy_Foo v0 empty_collection
     = (True, \<lparr> providers = [(Some ''Foo'', new_CustomProviderWrapper legacy_Foo v0)],
                console = [] \<rparr>)
   \<and> add ''Default'' legacy_Foo_other v0
         \<lparr> providers = [(Some ''Foo'', new_CustomProviderWrapper legacy_Foo v0)], console = [] \<rparr>
     = (False, \<lparr> providers = [(Some ''Foo'', new_CustomProviderWrapper legacy_Foo v0)],
                 console = [Error_AlreadyRegistered (Some ''Foo'')] \<rparr>)
   \<and> fst (add ''Default'' ext_Foo v1 empty_collection)
   \<and> fst (add ''Default'' ext_Foo_other v1 (snd (add ''Default'' ext_Foo v1 empty_collection)))
   \<and> map_of (providers (snd (add ''Default'' ext_Foo_other v1
                                (snd (add ''Default'' ext_Foo v1 empty_collection)))))
        (Some ''ext.foo'')
     = Some (new_CustomProviderWrapper ext_Foo_other v1)"
proof -
  have engine: "''Default'' \<noteq> ''Disabled''" by simp
  have first: "add ''Default'' legacy_Foo v0 empty_collection
     = (True, \<lparr> providers = [(Some ''Foo'', new_CustomProviderWrapper legacy_Foo v0)],
                console = [] \<rparr>)"
    by (simp add: add_def legacy_Foo_def empty_collection_def new_CustomProviderWrapper_def
        isValid_def wrapper_extensionId_def truthy_def)
  have valid:
    "isValid (new_CustomProviderWrapper legacy_Foo v0)"
    "isValid (new_CustomProviderWrapper legacy_Foo_other v0)"
    "isValid (new_CustomProviderWrapper ext_Foo v1)"
    "isValid (new_CustomProviderWrapper ext_Foo_other v1)"
    by (simp_all add: legacy_Foo_def legacy_Foo_other_def ext_Foo_def ext_Foo_other_def
        new_CustomProviderWrapper_def isValid_def truthy_def)
  show ?thesis
    using add_duplicate_by_version [OF engine, where ?ver1.0 = v0 and ?ver2.0 = v0
        and ?p1.0 = legacy_Foo and ?p2.0 = legacy_Foo_other and c = empty_collection
        and ?c1.0 = "\<lparr> providers = [(Some ''Foo'', new_CustomProviderWrapper legacy_Foo v0)],
                       console = [] \<rparr>"]
      add_duplicate_by_version [OF engine, where ?ver1.0 = v1 and ?ver2.0 = v1
        and ?p1.0 = ext_Foo and ?p2.0 = ext_Foo_other and c = empty_collection
        and ?c1.0 = "snd (add ''Default'' ext_Foo v1 empty_collection)"
        and ?b1.0 = "fst (add ''Default'' ext_Foo v1 empty_collection)"
        and ?b2.0 = "fst (add ''Default'' ext_Foo_other v1
                       (snd (add ''Default'' ext_Foo v1 empty_collection)))"
        and ?c2.0 = "snd (add ''Default'' ext_Foo_other v1
                       (snd (add ''Default'' ext_Foo v1 empty_collection)))"]
      first valid
    by (simp add: add_def legacy_Foo_def legacy_Foo_other_def ext_Foo_def ext_Foo_other_def
        empty_collection_def new_CustomProviderWrapper_def isValid_def wrapper_extensionId_def
        truthy_def)
qed

text \<open>
  C1 as it is stated fails at both of its halves. After the legacy provider Foo is
  registered, a second and different legacy provider named Foo is turned away with the
  duplicate error and the first stays; and after a v1 provider with the identity ext.foo
  is registered, a second and different v1 provider with that identity is accepted and
  takes its place.
\<close>

theorem add_duplicate_counterexample:
  "legacy_Foo_other \<noteq> legacy_Foo
   \<and> add ''Default'' legacy_Foo_other v0 (snd (add ''Default'' legacy_Foo v0 empty_collection))
     = (False, \<lparr> providers = [(Some ''Foo'', new_CustomProviderWrapper legacy_Foo v0)],
                 console = [Error_AlreadyRegistered (Some ''Foo'')] \<rparr>)
   \<and> ext_Foo_other \<noteq> ext_Foo
   \<and> add ''Default'' ext_Foo v1 empty_collection
     = (True, \<lparr> providers = [(Some ''ext.foo'', new_CustomProviderWrapper ext_Foo v1)],
                console = [] \<rparr>)
   \<and> add ''Default'' ext_Foo_other v1 (snd (add ''Default'' ext_Foo v1 empty_collection))
     = (True, \<lparr> providers = [(Some ''ext.foo'', new_CustomProviderWrapper ext_Foo_other v1)],
                console = [] \<rparr>)"
  by (simp add: add_def legacy_Foo_def legacy_Foo_other_def ext_Foo_def ext_Foo_other_def
      empty_collection_def new_CustomProviderWrapper_def isValid_def wrapper_extensionId_def
      truthy_def)

lemma fold_checkId_step:
  "fold (checkId_step pid) ws (found, nu) =
     (found @ filter (\<lambda>w. wrapper_extensionId w \<noteq> pid \<and> wrapper_name w = pid \<and> version w \<noteq> v0) ws,
      nu \<or> (\<exists>w \<in> set ws. wrapper_extensionId w = pid))"
  by (induction ws arbitrary: found nu) (auto simp: checkId_step_def)

lemma filter_no_identity:
  "\<forall>w \<in> set ws. wrapper_extensionId w \<noteq> pid \<Longrightarrow>
   filter (\<lambda>w. wrapper_extensionId w \<noteq> pid \<and> wrapper_name w = pid \<and> version w \<noteq> v0) ws
     = filter (\<lambda>w. wrapper_name w = pid \<and> version w \<noteq> v0) ws"
  by (induction ws) auto

text \<open>
  C5. \<open>checkId\<close> returns the identifier it was given when some registered provider
  has it as its identity. Otherwise, when exactly one registered provider above v0 has
  it as its display name, the result is that provider's identity; this holds for a
  non-empty identifier in any collection, and for any identifier in a collection whose
  wrappers are valid, as \<open>add\<close> leaves them. With no such provider, or more than one, the
  identifier comes back unchanged. After a v1 provider named Foo with the identity
  ext.foo is registered, Foo is answered by ext.foo, and ext.foo and Bar by themselves.
\<close>

theorem checkId_spec:
  "((\<exists>w \<in> set (registered c). wrapper_extensionId w = providerId)
      \<longrightarrow> fst (checkId c providerId) = providerId)
   \<and> ((\<forall>w \<in> set (registered c). wrapper_extensionId w \<noteq> providerId)
        \<and> (truthy providerId \<or> (\<forall>w \<in> set (registered c). isValid w))
        \<and> filter (\<lambda>w. wrapper_name w = providerId \<and> version w \<noteq> v0) (registered c) = [w]
      \<longrightarrow> fst (checkId c providerId) = wrapper_extensionId w)
   \<and> ((\<forall>w \<in> set (registered c). wrapper_extensionId w \<noteq> providerId)
        \<and> length (filter (\<lambda>w. wrapper_name w = providerId \<and> version w \<noteq> v0) (registered c)) \<noteq> 1
      \<longrightarrow> fst (checkId c providerId) = providerId)
   \<and> (let c1 = snd (add ''Default'' ext_Foo v1 empty_collection) in
        fst (checkId c1 (Some ''Foo'')) = Some ''ext.foo''
        \<and> fst (checkId c1 (Some ''ext.foo'')) = Some ''ext.foo''
        \<and> fst (checkId c1 (Some ''Bar'')) = Some ''Bar'')"
proof (intro conjI impI)
  assume "\<exists>w \<in> set (registered c). wrapper_extensionId w = providerId"
  then show "fst (checkId c providerId) = providerId"
    by (auto simp: checkId_def registered_def fold_checkId_step)
next
  assume a: "(\<forall>w \<in> set (registered c). wrapper_extensionId w \<noteq> providerId)
        \<and> (truthy providerId \<or> (\<forall>w \<in> set (registered c). isValid w))
        \<and> filter (\<lambda>w. wrapper_name w = providerId \<and> version w \<noteq> v0) (registered c) = [w]"
  then have f: "filter (\<lambda>w. wrapper_extensionId w \<noteq> providerId \<and> wrapper_name w = providerId
                              \<and> version w \<noteq> v0) (registered c) = [w]"
    using filter_no_identity [of "registered c" providerId] by simp
  have "w \<in> set (filter (\<lambda>w. wrapper_name w = providerId \<and> version w \<noteq> v0) (registered c))"
    using a by simp
  then have w: "w \<in> set (registered c)" "wrapper_name w = providerId" by auto
  have "truthy providerId"
    using a w isValid_name by auto
  then show "fst (checkId c providerId) = wrapper_extensionId w"
    using a f by (auto simp: checkId_def fold_checkId_step registered_def [symmetric])
next
  assume a: "(\<forall>w \<in> set (registered c). wrapper_extensionId w \<noteq> providerId)
        \<and> length (filter (\<lambda>w. wrapper_name w = providerId \<and> version w \<noteq> v0) (registered c)) \<noteq> 1"
  then have "length (filter (\<lambda>w. wrapper_extensionId w \<noteq> providerId \<and> wrapper_name w = providerId
                                   \<and> version w \<noteq> v0) (registered c)) \<noteq> 1"
    using filter_no_identity [of "registered c" providerId] by simp
  then show "fst (checkId c providerId) = providerId"
    by (auto simp: checkId_def fold_checkId_step registered_def [symmetric])
next
  show "let c1 = snd (add ''Default'' ext_Foo v1 empty_collection) in
        fst (checkId c1 (Some ''Foo'')) = Some ''ext.foo''
        \<and> fst (checkId c1 (Some ''ext.foo'')) = Some ''ext.foo''
        \<and> fst (checkId c1 (Some ''Bar'')) = Some ''Bar''"
    by (simp add: add_def ext_Foo_def empty_collection_def new_CustomProviderWrapper_def
        isValid_def wrapper_extensionId_def wrapper_name_def truthy_def checkId_def
        checkId_step_def)
qed

theorem checkId_spec_witness:
  "registered (snd (add ''Default'' ext_Foo v1 empty_collection))
     = [new_CustomProviderWrapper ext_Foo v1]
   \<and> fst (checkId (snd (add ''Default'' ext_Foo v1 empty_collection)) (Some ''ext.foo''))
     = Some ''ext.foo''
   \<and> fst (checkId (snd (add ''Default'' ext_Foo v1 empty_collection)) (Some ''Foo''))
     = Some ''ext.foo''
   \<and> fst (checkId (snd (add ''Default'' ext_Foo v1 empty_collection)) (Some ''Bar''))
     = Some ''Bar''"
proof -
  let ?c = "snd (add ''Default'' ext_Foo v1 empty_collection)"
  let ?w = "new_CustomProviderWrapper ext_Foo v1"
  have r: "registered ?c = [?w]"
    by (simp add: add_def ext_Foo_def empty_collection_def new_CustomProviderWrapper_def
        isValid_def wrapper_extensionId_def truthy_def registered_def)
  have w: "wrapper_extensionId ?w = Some ''ext.foo''" "wrapper_name ?w = Some ''Foo''"
    "version ?w = v1"
    by (simp_all add: ext_Foo_def new_CustomProviderWrapper_def wrapper_extensionId_def
        wrapper_name_def truthy_def)
  have h1: "\<exists>w \<in> set (registered ?c). wrapper_extensionId w = Some ''ext.foo''"
    using r w by simp
  have h2: "(\<forall>w \<in> set (registered ?c). wrapper_extensionId w \<noteq> Some ''Foo'')
      \<and> (truthy (Some ''Foo'') \<or> (\<forall>w \<in> set (registered ?c). isValid w))
      \<and> filter (\<lambda>w. wrapper_name w = Some ''Foo'' \<and> version w \<noteq> v0) (registered ?c) = [?w]"
    using r w by (simp add: truthy_def)
  have h3: "(\<forall>w \<in> set (registered ?c). wrapper_extensionId w \<noteq> Some ''Bar'')
      \<and> length (filter (\<lambda>w. wrapper_name w = Some ''Bar'' \<and> version w \<noteq> v0) (registered ?c)) \<noteq> 1"
    using r w by simp
  note spec1 = checkId_spec [of ?c "Some ''ext.foo''" ?w]
  note spec2 = checkId_spec [of ?c "Some ''Foo''" ?w]
  note spec3 = checkId_spec [of ?c "Some ''Bar''" ?w]
  have "fst (checkId ?c (Some ''ext.foo'')) = Some ''ext.foo''"
    using spec1 h1 by blast
  moreover have "fst (checkId ?c (Some ''Foo'')) = Some ''ext.foo''"
    using spec2 h2 w by simp
  moreover have "fst (checkId ?c (Some ''Bar'')) = Some ''Bar''"
    using spec3 h3 by blast
  ultimately show ?thesis using r by simp
qed

text \<open>
  C7, as the code has it. The constructor sets the flag to \<open>version < v2\<close>, with the
  version the provider was registered at: a wrapper of a provider registered below v2
  starts ready, one registered at v2 or later starts not ready, and either stays so
  until the setter is called.
\<close>

theorem wrapper_initial_readiness:
  "isReady (new_CustomProviderWrapper p ver) = (ver < v2)
   \<and> isReady (set_isReady ready (new_CustomProviderWrapper p ver)) = ready"
  by (simp add: new_CustomProviderWrapper_def set_isReady_def)

text \<open>
  C7 as it is stated fails: the wrappers of a provider registered at v0 and of one
  registered at v1 are ready from the start.
\<close>

theorem legacy_wrapper_ready_counterexample:
  "isReady (new_CustomProviderWrapper legacy_Foo v0)
   \<and> isReady (new_CustomProviderWrapper ext_Foo v1)"
  by (simp add: new_CustomProviderWrapper_def)

text \<open>
  C8. A provider registered at v0 whose object has an \<open>extensionId\<close> (a non-empty one:
  the constructor tests its truthiness) is wrapped at v1. Its identity is the
  \<open>extensionId\<close>, it is valid exactly when it has the v0 capabilities, the
  \<open>extensionId\<close> and \<open>dispose\<close>, the wrapper's \<open>dispose\<close> calls the provider's, and
  \<open>add\<close> stores it under the \<open>extensionId\<close>.
\<close>

theorem legacy_with_extensionId_promoted:
  "truthy (extensionId p) \<Longrightarrow>
   version (new_CustomProviderWrapper p v0) = v1
   \<and> wrapper_extensionId (new_CustomProviderWrapper p v0) = extensionId p
   \<and> isValid (new_CustomProviderWrapper p v0)
       = (truthy (name p) \<and> canProvideConfiguration p \<and> provideConfigurations p
          \<and> truthy (extensionId p) \<and> dispose p)
   \<and> wrapper_dispose (new_CustomProviderWrapper p v0)
       = (if dispose p then ProviderDisposeCalled else DisposeTypeError)
   \<and> wrapper_dispose (new_CustomProviderWrapper p v0) \<noteq> NoOp
   \<and> add ''Default'' p v0 c
       = (if isValid (new_CustomProviderWrapper p v0)
          then (True, c\<lparr>providers :=
                          map_set (extensionId p) (new_CustomProviderWrapper p v0) (providers c)\<rparr>)
          else (False, c\<lparr>console := console c @ [logProblems p v0]\<rparr>))"
  by (simp add: new_CustomProviderWrapper_def wrapper_extensionId_def isValid_def
      wrapper_dispose_def add_def Let_def split: option.splits)

theorem legacy_with_extensionId_promoted_witness:
  "truthy (extensionId ext_Foo)
   \<and> version (new_CustomProviderWrapper ext_Foo v0) = v1
   \<and> wrapper_extensionId (new_CustomProviderWrapper ext_Foo v0) = Some ''ext.foo''
   \<and> isValid (new_CustomProviderWrapper ext_Foo v0)
   \<and> \<not> isValid (new_CustomProviderWrapper (ext_Foo\<lparr>dispose := False\<rparr>) v0)
   \<and> wrapper_dispose (new_CustomProviderWrapper ext_Foo v0) = ProviderDisposeCalled
   \<and> add ''Default'' ext_Foo v0 empty_collection
       = (True, \<lparr> providers = [(Some ''ext.foo'', new_CustomProviderWrapper ext_Foo v0)],
                  console = [] \<rparr>)"
proof -
  have h: "truthy (extensionId ext_Foo)" "truthy (extensionId (ext_Foo\<lparr>dispose := False\<rparr>))"
    by (simp_all add: ext_Foo_def truthy_def)
  show ?thesis
    using legacy_with_extensionId_promoted [OF h(1), of empty_collection]
      legacy_with_extensionId_promoted [OF h(2), of empty_collection] h
    by (simp add: ext_Foo_def truthy_def empty_collection_def)
qed

text \<open>
  C9. With the setting \<open>intelliSenseEngine\<close> at \<open>Disabled\<close>, \<open>add\<close> returns false for
  every provider, version and collection, stores nothing and logs only the warning that
  IntelliSense is disabled: the test comes before the wrapper is built.
\<close>

theorem add_disabled:
  "fst (add ''Disabled'' p ver c) = False
   \<and> providers (snd (add ''Disabled'' p ver c)) = providers c
   \<and> console (snd (add ''Disabled'' p ver c)) = console c @ [Warn_IntelliSenseDisabled]"
  by (simp add: add_def)

section \<open>Properties of the per-property merge\<close>

lemma fold_resolveDefaults:
  "fold (\<lambda>entry result.
           if entry = default_token
           then (case d of None \<Rightarrow> result | Some ds \<Rightarrow> result @ ds)
           else result @ [entry]) entries acc
   = acc @ concat (map (\<lambda>entry. if entry = default_token
                                 then (case d of None \<Rightarrow> [] | Some ds \<Rightarrow> ds)
                                 else [entry]) entries)"
  by (induction entries arbitrary: acc) (auto split: option.splits)

lemma resolveDefaults_concat:
  "resolveDefaults entries d
   = concat (map (\<lambda>entry. if entry = default_token
                           then (case d of None \<Rightarrow> [] | Some ds \<Rightarrow> ds)
                           else [entry]) entries)"
  by (simp add: resolveDefaults_def fold_resolveDefaults)

lemma fold_append_concat:
  "fold (\<lambda>entry result. result @ f entry) ps acc = acc @ concat (map f ps)"
  by (induction ps arbitrary: acc) auto

lemma resolveAndSplit_concat:
  "resolveAndSplit rv (Some ps) d e
   = concat (map (\<lambda>entry. resolveDefaults
                            (filter (\<lambda>x. x \<noteq> []) (split (CHR '';'') (rv (Some entry) e))) d) ps)"
  by (simp add: resolveAndSplit_def Let_def fold_append_concat)

lemma split_no_separator: "sep \<notin> set s \<Longrightarrow> split sep s = [s]"
  by (induction s) auto

text \<open>
  C4. The list merge: \<open>resolveDefaults\<close> replaces every default token of its input by
  the default sequence, in place, and drops it when the default is \<open>null\<close>;
  \<open>resolveAndSplit\<close> resolves the variables of each entry, splits the result at
  semicolons, drops the empty pieces, expands the default tokens and appends, entry after
  entry. So when no resolved entry is empty or holds a semicolon, the merged list is the
  resolved entries in input order with each default token replaced by the default
  sequence. With a resolver that leaves the two entries as they are, the include path
  \<open>${default}\<close>, \<open>/extra\<close> with the settings default \<open>/sys/inc\<close> becomes
  \<open>/sys/inc\<close>, \<open>/extra\<close>; the include path of a configuration is merged this way.
\<close>

theorem list_merge_expands_default_in_place:
  "resolveDefaults entries d
     = concat (map (\<lambda>entry. if entry = default_token
                             then (case d of None \<Rightarrow> [] | Some ds \<Rightarrow> ds)
                             else [entry]) entries)
   \<and> resolveAndSplit rv (Some ps) d e
     = concat (map (\<lambda>entry. resolveDefaults
                              (filter (\<lambda>x. x \<noteq> []) (split (CHR '';'') (rv (Some entry) e))) d) ps)
   \<and> ((\<forall>p \<in> set ps. rv (Some p) e \<noteq> [] \<and> CHR '';'' \<notin> set (rv (Some p) e))
      \<longrightarrow> updateConfiguration_list rv (Some ps) d e
          = Some (concat (map (\<lambda>p. if rv (Some p) e = default_token
                                     then (case d of None \<Rightarrow> [] | Some ds \<Rightarrow> ds)
                                     else [rv (Some p) e]) ps)))
   \<and> (rv (Some ''${default}'') e = ''${default}'' \<and> rv (Some ''/extra'') e = ''/extra''
      \<longrightarrow> updateConfiguration_list rv (Some [''${default}'', ''/extra'']) (Some [''/sys/inc'']) e
          = Some [''/sys/inc'', ''/extra''])
   \<and> includePath (updateConfigurationEntry host e c)
     = updateConfiguration_list (util_resolveVariables host) (includePath c)
         (settings_defaultIncludePath (settings host)) e"
proof (intro conjI impI)
  show "includePath (updateConfigurationEntry host e c)
     = updateConfiguration_list (util_resolveVariables host) (includePath c)
         (settings_defaultIncludePath (settings host)) e"
    by (simp add: updateConfigurationEntry_def Let_def)
next
  show "resolveDefaults entries d
     = concat (map (\<lambda>entry. if entry = default_token
                             then (case d of None \<Rightarrow> [] | Some ds \<Rightarrow> ds)
                             else [entry]) entries)"
    by (rule resolveDefaults_concat)
next
  show "resolveAndSplit rv (Some ps) d e
     = concat (map (\<lambda>entry. resolveDefaults
                              (filter (\<lambda>x. x \<noteq> []) (split (CHR '';'') (rv (Some entry) e))) d) ps)"
    by (rule resolveAndSplit_concat)
next
  assume a: "\<forall>p \<in> set ps. rv (Some p) e \<noteq> [] \<and> CHR '';'' \<notin> set (rv (Some p) e)"
  have eq: "concat (map (\<lambda>entry. resolveDefaults
                       (filter (\<lambda>x. x \<noteq> []) (split (CHR '';'') (rv (Some entry) e))) d) ps)
        = concat (map (\<lambda>p. if rv (Some p) e = default_token
                    then (case d of None \<Rightarrow> [] | Some ds \<Rightarrow> ds)
                    else [rv (Some p) e]) ps)"
    using a
    by (intro arg_cong [where f = concat] map_cong refl)
       (simp add: split_no_separator resolveDefaults_concat)
  show "updateConfiguration_list rv (Some ps) d e
          = Some (concat (map (\<lambda>p. if rv (Some p) e = default_token
                                     then (case d of None \<Rightarrow> [] | Some ds \<Rightarrow> ds)
                                     else [rv (Some p) e]) ps))"
    by (simp only: updateConfiguration_list_def resolveAndSplit_concat eq) simp
next
  assume "rv (Some ''${default}'') e = ''${default}'' \<and> rv (Some ''/extra'') e = ''/extra''"
  then show "updateConfiguration_list rv (Some [''${default}'', ''/extra'']) (Some [''/sys/inc'']) e
          = Some [''/sys/inc'', ''/extra'']"
    by (simp add: updateConfiguration_list_def resolveAndSplit_concat resolveDefaults_concat
        default_token_def)
qed

theorem list_merge_expands_default_in_place_witness:
  "verbatim (Some ''${default}'') [] = ''${default}''
   \<and> verbatim (Some ''/extra'') [] = ''/extra''
   \<and> updateConfiguration_list verbatim (Some [''${default}'', ''/extra'']) (Some [''/sys/inc'']) []
       = Some [''/sys/inc'', ''/extra'']
   \<and> updateConfiguration_list verbatim (Some [''${default}'', ''/extra'']) None []
       = Some [''/extra'']"
proof -
  have h1: "\<forall>p \<in> set [''${default}'', ''/extra''].
              verbatim (Some p) [] \<noteq> [] \<and> CHR '';'' \<notin> set (verbatim (Some p) [])"
    by (simp add: verbatim_def)
  have h2: "verbatim (Some ''${default}'') [] = ''${default}''
            \<and> verbatim (Some ''/extra'') [] = ''/extra''"
    by (simp add: verbatim_def)
  note spec = list_merge_expands_default_in_place
                [where rv = verbatim and ps = "[''${default}'', ''/extra'']" and e = "[]"]
  have "updateConfiguration_list verbatim (Some [''${default}'', ''/extra'']) (Some [''/sys/inc'']) []
          = Some [''/sys/inc'', ''/extra'']"
    using spec h2 by blast
  moreover have "updateConfiguration_list verbatim (Some [''${default}'', ''/extra'']) None []
          = Some [''/extra'']"
    using spec [where d = None] h1 by (simp add: verbatim_def default_token_def)
  ultimately show ?thesis using h2 by simp
qed

section \<open>Properties of the version migration\<close>

lemma truthy_Some: "truthy x \<Longrightarrow> x \<noteq> None"
  by (cases x) (auto simp: truthy_def)

lemma backfill_intelliSenseMode_idem:
  "backfill_intelliSenseMode host (backfill_intelliSenseMode host c)
   = backfill_intelliSenseMode host c"
  by (simp add: backfill_intelliSenseMode_def)

lemma backfill_compilerPath_idem:
  "backfill_compilerPath host st (backfill_compilerPath host st c) = backfill_compilerPath host st c"
  by (auto simp: backfill_compilerPath_def dest: truthy_Some)

lemma backfill_cStandard_idem:
  "backfill_cStandard host st (backfill_cStandard host st c) = backfill_cStandard host st c"
  by (simp add: backfill_cStandard_def)

lemma backfill_cppStandard_idem:
  "backfill_cppStandard host st (backfill_cppStandard host st c) = backfill_cppStandard host st c"
  by (simp add: backfill_cppStandard_def)

text \<open>The four assignments read and write different properties, so they commute.\<close>

lemma backfill_commute:
  "backfill_intelliSenseMode host (backfill_compilerPath host st c)
   = backfill_compilerPath host st (backfill_intelliSenseMode host c)"
  "backfill_intelliSenseMode host (backfill_cStandard host st c)
   = backfill_cStandard host st (backfill_intelliSenseMode host c)"
  "backfill_intelliSenseMode host (backfill_cppStandard host st c)
   = backfill_cppStandard host st (backfill_intelliSenseMode host c)"
  "backfill_compilerPath host st (backfill_cStandard host st c)
   = backfill_cStandard host st (backfill_compilerPath host st c)"
  "backfill_compilerPath host st (backfill_cppStandard host st c)
   = backfill_cppStandard host st (backfill_compilerPath host st c)"
  "backfill_cStandard host st (backfill_cppStandard host st c)
   = backfill_cppStandard host st (backfill_cStandard host st c)"
  by (auto simp: backfill_intelliSenseMode_def backfill_compilerPath_def
      backfill_cStandard_def backfill_cppStandard_def)

lemma updateToVersion4_config_idem:
  "updateToVersion4_config host st (updateToVersion4_config host st c)
   = updateToVersion4_config host st c"
  by (simp add: updateToVersion4_config_def backfill_commute backfill_intelliSenseMode_idem
      backfill_compilerPath_idem backfill_cStandard_idem backfill_cppStandard_idem)

lemma updateToVersion4_config_fields:
  "config_name (updateToVersion4_config host st c) = config_name c"
  "macFrameworkPath (updateToVersion4_config host st c) = macFrameworkPath c"
  by (simp_all add: updateToVersion4_config_def backfill_intelliSenseMode_def
      backfill_compilerPath_def backfill_cStandard_def backfill_cppStandard_def)

lemma updateToVersion3_config_fields:
  "config_name (updateToVersion3_config pf c) = config_name c"
  "compilerPath (updateToVersion3_config pf c) = compilerPath c"
  "cStandard (updateToVersion3_config pf c) = cStandard c"
  "cppStandard (updateToVersion3_config pf c) = cppStandard c"
  "intelliSenseMode (updateToVersion3_config pf c) = intelliSenseMode c"
  "compileCommands (updateToVersion3_config pf c) = compileCommands c"
  by (simp_all add: updateToVersion3_config_def)

lemma updateToVersion3_config_idem:
  "updateToVersion3_config pf (updateToVersion3_config pf c) = updateToVersion3_config pf c"
  by (simp add: updateToVersion3_config_def)

lemma updateToVersion3_after_4_config:
  "updateToVersion3_config pf (updateToVersion4_config host st (updateToVersion3_config pf c))
   = updateToVersion4_config host st (updateToVersion3_config pf c)"
proof -
  let ?d = "updateToVersion3_config pf c"
  let ?e = "updateToVersion4_config host st ?d"
  have n: "config_name ?e = config_name c"
    by (simp add: updateToVersion4_config_fields updateToVersion3_config_fields)
  have m: "macFrameworkPath ?e = macFrameworkPath ?d"
    by (simp add: updateToVersion4_config_fields)
  have "(config_name c = ''Mac''
          \<or> (pf = ''darwin'' \<and> config_name c \<noteq> ''Win32'' \<and> config_name c \<noteq> ''Linux''))
        \<Longrightarrow> macFrameworkPath ?d \<noteq> None"
    by (auto simp: updateToVersion3_config_def)
  then show ?thesis
    unfolding updateToVersion3_config_def [of pf ?e] n m by auto
qed

text \<open>
  C6. Running the steps from version 2 to 3 and from 3 to 4 again on a document they have
  migrated gives the same document, for every document, platform, settings and compiler
  defaults: each step assigns only to a property that is absent (or, for the two
  standards, empty). As \<open>parsePropertiesFile\<close> runs the chain, a migrated document
  has the current version, and a second run changes nothing, shows nothing and does not
  mark the document dirty.
\<close>

theorem migration_idempotent:
  "updateToVersion4 host st (updateToVersion3 pf
     (updateToVersion4 host st (updateToVersion3 pf doc)))
   = updateToVersion4 host st (updateToVersion3 pf doc)
   \<and> migrate host st (fst (migrate host st doc)) = (fst (migrate host st doc), [], False)"
proof
  show "updateToVersion4 host st (updateToVersion3 pf
     (updateToVersion4 host st (updateToVersion3 pf doc)))
   = updateToVersion4 host st (updateToVersion3 pf doc)"
    by (simp add: updateToVersion4_def updateToVersion3_def updateToVersion3_after_4_config
        updateToVersion4_config_idem)
next
  have "json_version (fst (migrate host st doc)) = Some configVersion"
    by (simp add: migrate_def Let_def updateToVersion4_def updateToVersion3_def
        updateToVersion2_def configVersion_def)
  then show "migrate host st (fst (migrate host st doc)) = (fst (migrate host st doc), [], False)"
    by (simp add: migrate_def [of host st "fst (migrate host st doc)"])
qed

theorem migration_idempotent_witness:
  "fst (migrate linux_host (initial_state 0) mac_v2_document)
     = \<lparr> configurations =
           [(new_Configuration ''Mac'')
              \<lparr> macFrameworkPath := Some [''/System/Library/Frameworks'', ''/Library/Frameworks''],
                intelliSenseMode := Some ''clang-x64'' \<rparr>,
            (new_Configuration ''Win32'')\<lparr>intelliSenseMode := Some ''msvc-x64''\<rparr>],
         env = None, json_version = Some 4 \<rparr>
   \<and> migrate linux_host (initial_state 0)
         (fst (migrate linux_host (initial_state 0) mac_v2_document))
     = (fst (migrate linux_host (initial_state 0) mac_v2_document), [], False)"
proof -
  have "fst (migrate linux_host (initial_state 0) mac_v2_document)
     = \<lparr> configurations =
           [(new_Configuration ''Mac'')
              \<lparr> macFrameworkPath := Some [''/System/Library/Frameworks'', ''/Library/Frameworks''],
                intelliSenseMode := Some ''clang-x64'' \<rparr>,
            (new_Configuration ''Win32'')\<lparr>intelliSenseMode := Some ''msvc-x64''\<rparr>],
         env = None, json_version = Some 4 \<rparr>"
    by code_simp
  then show ?thesis
    using migration_idempotent [of linux_host "initial_state 0" "''linux''" mac_v2_document]
    by simp
qed

section \<open>Properties of parsing and reconciliation\<close>

lemma first_index_Some:
  "first_index P xs = Some j \<Longrightarrow> j < length xs \<and> P (xs ! j) \<and> (\<forall>k < j. \<not> P (xs ! k))"
proof (induction xs arbitrary: j)
  case Nil
  then show ?case by simp
next
  case (Cons x xs)
  show ?case
  proof (cases "P x")
    case True
    with Cons.prems show ?thesis by simp
  next
    case False
    with Cons.prems obtain j' where j': "first_index P xs = Some j'" "j = Suc j'"
      by auto
    from Cons.IH [OF j'(1)] False j'(2) show ?thesis
      by (auto simp: nth_Cons split: nat.splits)
  qed
qed

lemma first_index_None: "(first_index P xs = None) = (\<forall>x \<in> set xs. \<not> P x)"
  by (induction xs) auto

lemma first_index_map: "first_index (\<lambda>c. P (f c)) xs = first_index P (map f xs)"
  by (induction xs) auto

lemma getConfigIndexForPlatform_names:
  "getConfigIndexForPlatform pf cs
   = (case first_index (\<lambda>n. n = platform_name pf) (map config_name cs) of
        Some i \<Rightarrow> int i | None \<Rightarrow> int (length (map config_name cs)) - 1)"
  by (simp add: getConfigIndexForPlatform_def
      first_index_map [of "\<lambda>n. n = platform_name pf" config_name] split: option.splits)

lemma getConfigIndexForPlatform_cong:
  "map config_name cs = map config_name cs'
   \<Longrightarrow> getConfigIndexForPlatform pf cs = getConfigIndexForPlatform pf cs'"
  by (simp only: getConfigIndexForPlatform_names)

lemma index_in_range_cong:
  "length xs = length ys \<Longrightarrow> index_in_range i xs = index_in_range i ys"
  by (simp add: index_in_range_def)

lemma normalize_index_cong:
  assumes "map config_name cs = map config_name cs'"
  shows "normalize_index pf cs i = normalize_index pf cs' i"
proof -
  have "length cs = length cs'" using assms by (rule map_eq_imp_length_eq)
  then show ?thesis
    using getConfigIndexForPlatform_cong [OF assms]
    by (simp add: normalize_index_def index_in_range_def)
qed

lemma getConfigIndexForPlatform_in_range:
  "cs \<noteq> [] \<Longrightarrow> index_in_range (getConfigIndexForPlatform pf cs) cs"
  by (auto simp: getConfigIndexForPlatform_def index_in_range_def
      dest: first_index_Some split: option.splits)

lemma normalize_index_in_range:
  "cs \<noteq> [] \<Longrightarrow> index_in_range (normalize_index pf cs i) cs"
  by (simp add: normalize_index_def getConfigIndexForPlatform_in_range)

lemma normalize_index_idem:
  "cs \<noteq> [] \<Longrightarrow> normalize_index pf cs (normalize_index pf cs i) = normalize_index pf cs i"
  using normalize_index_in_range [of cs pf i] by (simp add: normalize_index_def [of pf cs "normalize_index pf cs i"])

lemma and_then_Returns:
  "(and_then r f = Returns s') = (\<exists>s. r = Returns s \<and> f s = Returns s')"
  by (cases r) (auto simp: and_then_def)

lemma migrate_names:
  "map config_name (configurations (fst (migrate host st doc))) = map config_name (configurations doc)"
  by (simp add: migrate_def Let_def updateToVersion4_def updateToVersion3_def updateToVersion2_def
      updateToVersion4_config_def backfill_intelliSenseMode_def backfill_compilerPath_def
      backfill_cStandard_def backfill_cppStandard_def updateToVersion3_config_def o_def)

lemma checkProviderIds_names:
  "map config_name (fst (checkProviderIds c cs)) = map config_name cs"
  by (simp add: checkProviderIds_def o_def)

lemma acceptDocument_fields:
  "currentConfigurationIndex (acceptDocument host st newJson)
     = normalize_index (platform host) (configurations newJson)
         (remap_index st (configurations newJson))"
  "configurationIncomplete (acceptDocument host st newJson) = False"
  "propertiesFile (acceptDocument host st newJson) = propertiesFile st"
  "\<exists>doc. configurationJson (acceptDocument host st newJson) = Object doc
         \<and> map config_name (configurations doc) = map config_name (configurations newJson)"
  using migrate_names [of host st
          "newJson\<lparr>configurations := fst (checkProviderIds (customConfigProviders host) (configurations newJson)),
                   env := removeDisallowedOverrides (env newJson)\<rparr>"]
  by (simp_all add: acceptDocument_def Let_def checkProviderIds_names case_prod_beta)

lemma parsePropertiesFile_Returns:
  assumes "parsePropertiesFile host st = Returns s1"
  shows "(readFileSync host = Some [] \<and> s1 = st)
         \<or> (\<exists>text newJson. readFileSync host = Some text \<and> text \<noteq> []
               \<and> JSON_parse host text = Some (JDocument newJson)
               \<and> configurations newJson \<noteq> [] \<and> s1 = acceptDocument host st newJson)"
  using assms
  by (auto simp: parsePropertiesFile_def parse_failure_def
      split: option.splits if_splits json_value.splits)

lemma applyDefaults_to_name: "config_name (applyDefaults_to host st c) = config_name c"
  by (simp add: applyDefaults_to_def Let_def)

lemma map_name_update:
  assumes "config_name c' = config_name (cs ! i)"
  shows "map config_name (cs[i := c']) = map config_name cs"
proof (cases "i < length cs")
  case True
  have "map config_name (cs[i := c']) = (map config_name cs)[i := map config_name cs ! i]"
    using True assms by (simp add: map_update)
  then show ?thesis by simp
next
  case False
  then have "cs[i := c'] = cs" by (simp add: list_update_beyond)
  then show ?thesis by simp
qed

lemma applyDefaults_Returns:
  assumes "applyDefaultIncludePathsAndFrameworks host s = Returns s'"
  shows "currentConfigurationIndex s' = currentConfigurationIndex s"
    and "\<And>doc. configurationJson s = Object doc
          \<Longrightarrow> \<exists>doc'. configurationJson s' = Object doc'
                \<and> map config_name (configurations doc') = map config_name (configurations doc)"
  using assms
  by (auto simp: applyDefaultIncludePathsAndFrameworks_def Let_def map_name_update
      applyDefaults_to_name split: if_splits reference.splits)

lemma updateConfigurationEntry_name:
  "config_name (updateConfigurationEntry host e c) = config_name c"
  by (simp add: updateConfigurationEntry_def Let_def)

lemma updateServer_Returns:
  assumes "updateServerOnFolderSettingsChange host s = Returns s'"
  shows "currentConfigurationIndex s' = currentConfigurationIndex s"
    and "\<exists>doc doc'. configurationJson s = Object doc \<and> configurationJson s' = Object doc'
                \<and> map config_name (configurations doc') = map config_name (configurations doc)"
  using assms
  by (auto simp: updateServerOnFolderSettingsChange_def Let_def updateConfigurationEntry_name
      o_def split: reference.splits)

text \<open>The last two steps of a reconciliation keep the index and the names.\<close>

lemma tail_Returns:
  assumes "and_then (applyDefaultIncludePathsAndFrameworks host s)
             (updateServerOnFolderSettingsChange host) = Returns s'"
  shows "currentConfigurationIndex s' = currentConfigurationIndex s"
    and "\<exists>doc doc'. configurationJson s = Object doc \<and> configurationJson s' = Object doc'
                \<and> map config_name (configurations doc') = map config_name (configurations doc)"
proof -
  from assms obtain s3 where
    s3: "applyDefaultIncludePathsAndFrameworks host s = Returns s3"
        "updateServerOnFolderSettingsChange host s3 = Returns s'"
    by (auto simp: and_then_Returns)
  show "currentConfigurationIndex s' = currentConfigurationIndex s"
    using applyDefaults_Returns(1) [OF s3(1)] updateServer_Returns(1) [OF s3(2)] by simp
  from updateServer_Returns(2) [OF s3(2)] obtain d3 d' where
    d: "configurationJson s3 = Object d3" "configurationJson s' = Object d'"
       "map config_name (configurations d') = map config_name (configurations d3)"
    by auto
  have "\<exists>doc. configurationJson s = Object doc"
    using s3(1) d(1)
    by (cases "configurationJson s")
       (auto simp: applyDefaultIncludePathsAndFrameworks_def split: if_splits)
  then obtain doc where doc: "configurationJson s = Object doc" ..
  from applyDefaults_Returns(2) [OF s3(1) doc] d(1)
  have "map config_name (configurations d3) = map config_name (configurations doc)" by auto
  with d doc show "\<exists>doc doc'. configurationJson s = Object doc \<and> configurationJson s' = Object doc'
                \<and> map config_name (configurations doc') = map config_name (configurations doc)"
    by auto
qed

lemma handleConfigurationChange_after_throw:
  "propertiesFile st \<noteq> None \<Longrightarrow> parsePropertiesFile host st = Throws err s
   \<Longrightarrow> handleConfigurationChange host st = Throws err s"
  by (simp add: handleConfigurationChange_def and_then_def)

text \<open>
  C2, as the code has it. For every prior state with a properties file whose content is
  not empty: when the content is no JSON text, \<open>parsePropertiesFile\<close> shows the
  failure to the user and throws the SyntaxError; when it parses to a falsy value, to a
  value without configurations or to a document with an empty configuration list, as
  \<open>{configurations: [], version: 4}\<close> is, it shows the failure and throws the
  invalid-file error. In each case the state is the prior one but for the message shown,
  so the document and the index are the prior ones, and \<open>handleConfigurationChange\<close>
  ends with the same throw.
\<close>

theorem failed_parse_keeps_document:
  "propertiesFile st \<noteq> None \<Longrightarrow> readFileSync host = Some text \<Longrightarrow> text \<noteq> [] \<Longrightarrow>
   (JSON_parse host text = None
      \<longrightarrow> parsePropertiesFile host st
          = Throws SyntaxError
              (st\<lparr>messages := messages st @ [ErrorMessage_FailedToParse SyntaxError]\<rparr>))
   \<and> (JSON_parse host text = Some JNull \<or> JSON_parse host text = Some JNoConfigurations
        \<or> (\<exists>doc. JSON_parse host text = Some (JDocument doc) \<and> configurations doc = [])
      \<longrightarrow> parsePropertiesFile host st
          = Throws InvalidConfigurationFile
              (st\<lparr>messages := messages st @ [ErrorMessage_FailedToParse InvalidConfigurationFile]\<rparr>))
   \<and> (JSON_parse host text
        = Some (JDocument \<lparr> configurations = [], env = None, json_version = Some 4 \<rparr>)
      \<longrightarrow> parsePropertiesFile host st
          = Throws InvalidConfigurationFile
              (st\<lparr>messages := messages st @ [ErrorMessage_FailedToParse InvalidConfigurationFile]\<rparr>))
   \<and> (JSON_parse host text = None \<or> JSON_parse host text = Some JNull
        \<or> JSON_parse host text = Some JNoConfigurations
        \<or> (\<exists>doc. JSON_parse host text = Some (JDocument doc) \<and> configurations doc = [])
      \<longrightarrow> (\<exists>err. parsePropertiesFile host st
                  = Throws err (st\<lparr>messages := messages st @ [ErrorMessage_FailedToParse err]\<rparr>)
                \<and> handleConfigurationChange host st = parsePropertiesFile host st)
          \<and> configurationJson (state_of (parsePropertiesFile host st)) = configurationJson st
          \<and> currentConfigurationIndex (state_of (parsePropertiesFile host st))
              = currentConfigurationIndex st)"
  by (auto simp: parsePropertiesFile_def parse_failure_def state_of_def
      handleConfigurationChange_def and_then_def)

theorem failed_parse_keeps_document_witness:
  "parsePropertiesFile (linux_host\<lparr>readFileSync := Some malformed_text\<rparr>) loaded_state
     = Throws SyntaxError
         (loaded_state\<lparr>messages := [ErrorMessage_FailedToParse SyntaxError]\<rparr>)
   \<and> parsePropertiesFile (linux_host\<lparr>readFileSync := Some no_configurations_text\<rparr>) loaded_state
     = Throws InvalidConfigurationFile
         (loaded_state\<lparr>messages := [ErrorMessage_FailedToParse InvalidConfigurationFile]\<rparr>)
   \<and> configurationJson
         (state_of (parsePropertiesFile (linux_host\<lparr>readFileSync := Some no_configurations_text\<rparr>)
                      loaded_state))
     = Object three_configurations"
proof -
  have f: "propertiesFile loaded_state \<noteq> None"
    by (simp add: loaded_state_def)
  have m: "readFileSync (linux_host\<lparr>readFileSync := Some malformed_text\<rparr>) = Some malformed_text"
    "malformed_text \<noteq> []"
    "JSON_parse (linux_host\<lparr>readFileSync := Some malformed_text\<rparr>) malformed_text = None"
    by (simp_all add: linux_host_def malformed_text_def example_JSON_parse_def
        no_configurations_text_def two_configurations_text_def)
  have n: "readFileSync (linux_host\<lparr>readFileSync := Some no_configurations_text\<rparr>)
             = Some no_configurations_text"
    "no_configurations_text \<noteq> []"
    "JSON_parse (linux_host\<lparr>readFileSync := Some no_configurations_text\<rparr>) no_configurations_text
       = Some (JDocument \<lparr> configurations = [], env = None, json_version = Some 4 \<rparr>)"
    by (simp_all add: linux_host_def example_JSON_parse_def no_configurations_def
        no_configurations_text_def)
  have msgs: "messages loaded_state = []" "configurationJson loaded_state = Object three_configurations"
    by (simp_all add: loaded_state_def initial_state_def)
  show ?thesis
    using failed_parse_keeps_document [OF f m(1) m(2)] m(3)
      failed_parse_keeps_document [OF f n(1) n(2)] n(3) msgs
    by (simp add: state_of_def)
qed

text \<open>
  C2 as it is stated fails for a file that is empty: the empty text is no JSON text, and
  \<open>parsePropertiesFile\<close> returns on it before it parses, with no error shown or
  thrown (the source notes that the file is read empty at times while it is created).
\<close>

theorem empty_file_counterexample:
  "JSON_parse (linux_host\<lparr>readFileSync := Some []\<rparr>) [] = None
   \<and> parsePropertiesFile (linux_host\<lparr>readFileSync := Some []\<rparr>) loaded_state
     = Returns loaded_state"
  by (simp add: parsePropertiesFile_def linux_host_def loaded_state_def example_JSON_parse_def
      no_configurations_text_def two_configurations_text_def)

lemma updateServer_Object:
  "configurationJson s = Object d
   \<Longrightarrow> \<exists>s'. updateServerOnFolderSettingsChange host s = Returns s'
            \<and> currentConfigurationIndex s' = currentConfigurationIndex s"
  by (simp add: updateServerOnFolderSettingsChange_def Let_def)

lemma applyDefaults_complete:
  "\<not> configurationIncomplete s \<Longrightarrow> applyDefaultIncludePathsAndFrameworks host s = Returns s"
  by (simp add: applyDefaultIncludePathsAndFrameworks_def)

lemma handleConfigurationChange_after_accept:
  assumes "propertiesFile st \<noteq> None"
    and "parsePropertiesFile host st = Returns (acceptDocument host st newJson)"
    and "configurations newJson \<noteq> []"
  shows "\<exists>st'. handleConfigurationChange host st = Returns st'
              \<and> currentConfigurationIndex st'
                  = currentConfigurationIndex (acceptDocument host st newJson)"
proof -
  let ?a = "acceptDocument host st newJson"
  from acceptDocument_fields(4) [of host st newJson] obtain d where
    d: "configurationJson ?a = Object d"
       "map config_name (configurations d) = map config_name (configurations newJson)"
    by auto
  have idx: "normalize_index (platform host) (configurations d) (currentConfigurationIndex ?a)
               = currentConfigurationIndex ?a"
    using normalize_index_idem [OF assms(3), of "platform host"
            "remap_index st (configurations newJson)"]
    by (simp add: acceptDocument_fields(1) normalize_index_cong [OF d(2)])
  have fixed: "fix_index host ?a = Returns ?a"
    by (simp add: fix_index_def d(1) idx)
  have inc: "\<not> configurationIncomplete ?a" by (simp add: acceptDocument_fields(2))
  from updateServer_Object [OF d(1), of host] obtain s' where
    s': "updateServerOnFolderSettingsChange host ?a = Returns s'"
        "currentConfigurationIndex s' = currentConfigurationIndex ?a"
    by auto
  have "handleConfigurationChange host st = Returns s'"
    using assms(1,2) fixed d(1) s'(1) applyDefaults_complete [OF inc, of host]
    by (simp add: handleConfigurationChange_def and_then_def)
  with s'(2) show ?thesis by auto
qed

text \<open>
  C10. When defaulting is complete, the store holds a document and the index selects one
  of its configurations, a parse that reads a document with a configuration of the
  selected name returns, and the index it leaves is that of the first entry of the new
  list with that name: \<open>remap_index\<close> finds it before the range check, which then
  keeps it, and the reconciliation around the parse returns with the same index.
\<close>

theorem reparse_keeps_selection_by_name:
  "propertiesFile st \<noteq> None \<Longrightarrow> readFileSync host = Some text \<Longrightarrow> text \<noteq> [] \<Longrightarrow>
   JSON_parse host text = Some (JDocument newJson) \<Longrightarrow> configurations newJson \<noteq> [] \<Longrightarrow>
   \<not> configurationIncomplete st \<Longrightarrow> configurationJson st = Object old \<Longrightarrow>
   index_in_range (currentConfigurationIndex st) (configurations old) \<Longrightarrow>
   selected = config_name (configurations old ! nat (currentConfigurationIndex st)) \<Longrightarrow>
   \<exists>c \<in> set (configurations newJson). config_name c = selected \<Longrightarrow>
   \<exists>j st' doc' st''.
      parsePropertiesFile host st = Returns st'
      \<and> remap_index st (configurations newJson) = int j
      \<and> currentConfigurationIndex st' = int j
      \<and> j < length (configurations newJson)
      \<and> config_name (configurations newJson ! j) = selected
      \<and> (\<forall>k < j. config_name (configurations newJson ! k) \<noteq> selected)
      \<and> configurationJson st' = Object doc'
      \<and> map config_name (configurations doc') = map config_name (configurations newJson)
      \<and> handleConfigurationChange host st = Returns st''
      \<and> currentConfigurationIndex st'' = int j"
proof -
  assume present: "propertiesFile st \<noteq> None"
    and read: "readFileSync host = Some text" "text \<noteq> []"
      "JSON_parse host text = Some (JDocument newJson)"
    and new: "configurations newJson \<noteq> []"
    and complete: "\<not> configurationIncomplete st"
    and old: "configurationJson st = Object old"
      "index_in_range (currentConfigurationIndex st) (configurations old)"
    and sel: "selected = config_name (configurations old ! nat (currentConfigurationIndex st))"
    and ex: "\<exists>c \<in> set (configurations newJson). config_name c = selected"
  let ?a = "acceptDocument host st newJson"
  have parse: "parsePropertiesFile host st = Returns ?a"
    using present read new by (auto simp: parsePropertiesFile_def)
  from ex have "first_index (\<lambda>c. config_name c = selected) (configurations newJson) \<noteq> None"
    by (simp add: first_index_None)
  then obtain j where j: "first_index (\<lambda>c. config_name c = selected) (configurations newJson) = Some j"
    by auto
  note first = first_index_Some [OF j]
  have remap: "remap_index st (configurations newJson) = int j"
    using complete old j sel by (simp add: remap_index_def)
  have "index_in_range (int j) (configurations newJson)"
    using first by (simp add: index_in_range_def)
  then have idx: "currentConfigurationIndex ?a = int j"
    by (simp add: acceptDocument_fields(1) remap normalize_index_def)
  from acceptDocument_fields(4) [of host st newJson] obtain d where
    d: "configurationJson ?a = Object d"
       "map config_name (configurations d) = map config_name (configurations newJson)"
    by auto
  from handleConfigurationChange_after_accept [OF present parse new] obtain st'' where
    "handleConfigurationChange host st = Returns st''"
    "currentConfigurationIndex st'' = currentConfigurationIndex ?a"
    by auto
  with parse remap idx first d show ?thesis by auto
qed

theorem reparse_keeps_selection_by_name_witness:
  "remap_index loaded_state (configurations two_configurations) = 1
   \<and> currentConfigurationIndex loaded_state = 2
   \<and> config_name (configurations three_configurations ! 2) = ''Release''
   \<and> config_name (configurations two_configurations ! 1) = ''Release''
   \<and> currentConfigurationIndex
        (state_of (parsePropertiesFile (linux_host\<lparr>readFileSync := Some two_configurations_text\<rparr>)
                     loaded_state)) = 1
   \<and> currentConfigurationIndex
        (state_of (handleConfigurationChange
                     (linux_host\<lparr>readFileSync := Some two_configurations_text\<rparr>)
                     loaded_state)) = 1"
proof -
  let ?host = "linux_host\<lparr>readFileSync := Some two_configurations_text\<rparr>"
  have h: "propertiesFile loaded_state \<noteq> None"
    "readFileSync ?host = Some two_configurations_text"
    "two_configurations_text \<noteq> []"
    "JSON_parse ?host two_configurations_text = Some (JDocument two_configurations)"
    "configurations two_configurations \<noteq> []"
    "\<not> configurationIncomplete loaded_state"
    "configurationJson loaded_state = Object three_configurations"
    "index_in_range (currentConfigurationIndex loaded_state) (configurations three_configurations)"
    "''Release'' = config_name (configurations three_configurations
                                  ! nat (currentConfigurationIndex loaded_state))"
    "\<exists>c \<in> set (configurations two_configurations). config_name c = ''Release''"
    by (simp_all add: loaded_state_def initial_state_def linux_host_def example_JSON_parse_def
        two_configurations_text_def no_configurations_text_def two_configurations_def
        three_configurations_def index_in_range_def new_Configuration_def)
  from reparse_keeps_selection_by_name [OF h] obtain j st' st'' where
    r: "parsePropertiesFile ?host loaded_state = Returns st'"
       "remap_index loaded_state (configurations two_configurations) = int j"
       "currentConfigurationIndex st' = int j"
       "j < length (configurations two_configurations)"
       "config_name (configurations two_configurations ! j) = ''Release''"
       "handleConfigurationChange ?host loaded_state = Returns st''"
       "currentConfigurationIndex st'' = int j"
    by blast
  have "j = 1"
    using r(4,5) by (cases j) (simp_all add: two_configurations_def new_Configuration_def)
  then show ?thesis
    using r by (simp add: state_of_def loaded_state_def initial_state_def
        three_configurations_def two_configurations_def new_Configuration_def)
qed

lemma default_document_index:
  "normalize_index pf (configurations (getDefaultCppProperties pf)) i = 0"
  "getConfigIndexForPlatform pf (configurations (getDefaultCppProperties pf)) = 0"
  by (auto simp: normalize_index_def getConfigIndexForPlatform_def getDefaultCppProperties_def
      getDefaultConfig_def new_Configuration_def platform_name_def index_in_range_def)

lemma resetToDefaultSettings_fields:
  "configurationJson (resetToDefaultSettings host r st) = Object (getDefaultCppProperties (platform host))"
  "currentConfigurationIndex (resetToDefaultSettings host r st) = 0"
  using default_document_index [of "platform host"]
  by (auto simp: resetToDefaultSettings_def Let_def normalize_index_def index_in_range_def
      getDefaultCppProperties_def)

lemma normalize_index_names:
  assumes "map config_name cs = map config_name (configurations (getDefaultCppProperties pf))"
  shows "normalize_index pf cs i = 0"
  using normalize_index_cong [OF assms, of pf i] by (simp add: default_document_index)

text \<open>The state after the first two steps of a reconciliation that returns.\<close>

lemma reconciliation_head:
  assumes "and_then
             (if propertiesFile st \<noteq> None
              then and_then (parsePropertiesFile host st) (fix_index host)
              else Returns st)
             (\<lambda>st. Returns (if configurationJson st = Undefined
                             then resetToDefaultSettings host True st else st)) = Returns s2"
    and "propertiesFile st \<noteq> None \<or> configurationJson st = Undefined"
  shows "\<exists>d2. configurationJson s2 = Object d2
              \<and> currentConfigurationIndex s2
                  = normalize_index (platform host) (configurations d2)
                      (index_before_normalization host st)"
proof (cases "propertiesFile st = None")
  case True
  with assms have "s2 = resetToDefaultSettings host True st"
    by (auto simp: and_then_def)
  then show ?thesis
    by (simp add: resetToDefaultSettings_fields default_document_index)
next
  case False
  with assms(1) obtain s1 s1' where
    s1: "parsePropertiesFile host st = Returns s1" "fix_index host s1 = Returns s1'"
      "s2 = (if configurationJson s1' = Undefined then resetToDefaultSettings host True s1' else s1')"
    by (auto simp: and_then_Returns)
  show ?thesis
  proof (cases "configurationJson s1")
    case Undefined
    then have "s2 = resetToDefaultSettings host True s1"
      using s1 by (simp add: fix_index_def)
    then show ?thesis
      by (simp add: resetToDefaultSettings_fields default_document_index)
  next
    case Null
    then show ?thesis using s1(2) by (simp add: fix_index_def)
  next
    case (Object d1)
    then have s2: "s2 = s1\<lparr>currentConfigurationIndex :=
                           normalize_index (platform host) (configurations d1)
                             (currentConfigurationIndex s1)\<rparr>"
      using s1 by (auto simp: fix_index_def)
    from parsePropertiesFile_Returns [OF s1(1)] show ?thesis
    proof (elim disjE conjE exE)
      assume e: "readFileSync host = Some []" "s1 = st"
      have "index_before_normalization host st = currentConfigurationIndex st"
        using False e(1) by (auto simp: index_before_normalization_def)
      then show ?thesis
        using s2 Object e(2) by simp
    next
      fix content newJson
      assume a: "readFileSync host = Some content" "content \<noteq> []"
        "JSON_parse host content = Some (JDocument newJson)" "configurations newJson \<noteq> []"
        "s1 = acceptDocument host st newJson"
      from acceptDocument_fields(4) [of host st newJson] a(5) Object
      have names: "map config_name (configurations d1) = map config_name (configurations newJson)"
        by auto
      have "currentConfigurationIndex s2
              = normalize_index (platform host) (configurations newJson)
                  (remap_index st (configurations newJson))"
        using normalize_index_idem [OF a(4), of "platform host"
                "remap_index st (configurations newJson)"]
        by (simp add: s2 a(5) acceptDocument_fields(1) normalize_index_cong [OF names])
      moreover have "index_before_normalization host st = remap_index st (configurations newJson)"
        using False a(1,2,3) by (auto simp: index_before_normalization_def)
      ultimately show ?thesis
        using s2 Object by (simp add: normalize_index_cong [OF names])
    qed
  qed
qed

text \<open>
  C3, as the code has it. When \<open>handleConfigurationChange\<close> returns, the store holds a
  document. If there is a properties file (or the document was undefined, the reset
  path), the index is normalized: it is the index held before the range check, which a
  parse may have moved to the selected name, when that is in range of the final list, and
  otherwise the index of the first configuration with the platform's name, or the length
  minus one when there is none; so it is in range whenever the list is not empty. With no
  properties file and a document in memory the index and the length of the list are left
  as they were. \<open>resetToDefaultSettings\<close> always leaves an index in range of the
  default document.
\<close>

theorem reconciliation_index_in_range:
  "handleConfigurationChange host st = Returns st' \<Longrightarrow>
   (\<exists>doc'. configurationJson st' = Object doc'
      \<and> (propertiesFile st \<noteq> None \<or> configurationJson st = Undefined
          \<longrightarrow> currentConfigurationIndex st'
                = (if index_in_range (index_before_normalization host st) (configurations doc')
                   then index_before_normalization host st
                   else case first_index (\<lambda>c. config_name c = platform_name (platform host))
                               (configurations doc') of
                          Some j \<Rightarrow> int j
                        | None \<Rightarrow> int (length (configurations doc')) - 1)
              \<and> (configurations doc' \<noteq> []
                  \<longrightarrow> index_in_range (currentConfigurationIndex st') (configurations doc')))
      \<and> (propertiesFile st = None \<and> configurationJson st \<noteq> Undefined
          \<longrightarrow> currentConfigurationIndex st' = currentConfigurationIndex st
              \<and> (\<exists>doc. configurationJson st = Object doc
                    \<and> length (configurations doc') = length (configurations doc))))
   \<and> configurationJson (resetToDefaultSettings host resetIndex st)
       = Object (getDefaultCppProperties (platform host))
   \<and> index_in_range (currentConfigurationIndex (resetToDefaultSettings host resetIndex st))
       (configurations (getDefaultCppProperties (platform host)))"
proof -
  assume ret: "handleConfigurationChange host st = Returns st'"
  then obtain s2 where
    head: "and_then
             (if propertiesFile st \<noteq> None
              then and_then (parsePropertiesFile host st) (fix_index host)
              else Returns st)
             (\<lambda>st. Returns (if configurationJson st = Undefined
                             then resetToDefaultSettings host True st else st)) = Returns s2"
    and tail: "and_then (applyDefaultIncludePathsAndFrameworks host s2)
                 (updateServerOnFolderSettingsChange host) = Returns st'"
    unfolding handleConfigurationChange_def
    by (auto simp: and_then_Returns [of _ "updateServerOnFolderSettingsChange host"]
        and_then_Returns [of _ "applyDefaultIncludePathsAndFrameworks host"] and_then_def
        split: outcome.splits)
  from tail_Returns [OF tail] obtain d2 doc' where
    t: "currentConfigurationIndex st' = currentConfigurationIndex s2"
       "configurationJson s2 = Object d2" "configurationJson st' = Object doc'"
       "map config_name (configurations doc') = map config_name (configurations d2)"
    by auto
  have len: "length (configurations doc') = length (configurations d2)"
    using t(4) by (rule map_eq_imp_length_eq)
  have part1: "currentConfigurationIndex st'
                = (if index_in_range (index_before_normalization host st) (configurations doc')
                   then index_before_normalization host st
                   else case first_index (\<lambda>c. config_name c = platform_name (platform host))
                               (configurations doc') of
                          Some j \<Rightarrow> int j
                        | None \<Rightarrow> int (length (configurations doc')) - 1)
              \<and> (configurations doc' \<noteq> []
                  \<longrightarrow> index_in_range (currentConfigurationIndex st') (configurations doc'))"
    if "propertiesFile st \<noteq> None \<or> configurationJson st = Undefined"
  proof -
    from reconciliation_head [OF head that] t(2)
    have "currentConfigurationIndex s2
            = normalize_index (platform host) (configurations d2)
                (index_before_normalization host st)"
      by auto
    then have eq: "currentConfigurationIndex st'
            = normalize_index (platform host) (configurations doc')
                (index_before_normalization host st)"
      by (simp add: t(1) normalize_index_cong [OF t(4)])
    show ?thesis
      using normalize_index_in_range [of "configurations doc'" "platform host"
              "index_before_normalization host st"]
      by (simp add: eq normalize_index_def getConfigIndexForPlatform_def)
  qed
  have part2: "currentConfigurationIndex st' = currentConfigurationIndex st
              \<and> (\<exists>doc. configurationJson st = Object doc
                    \<and> length (configurations doc') = length (configurations doc))"
    if "propertiesFile st = None \<and> configurationJson st \<noteq> Undefined"
  proof -
    from head that have "s2 = st" by (auto simp: and_then_def)
    with t len show ?thesis by auto
  qed
  have reset: "configurationJson (resetToDefaultSettings host resetIndex st)
       = Object (getDefaultCppProperties (platform host))
   \<and> index_in_range (currentConfigurationIndex (resetToDefaultSettings host resetIndex st))
       (configurations (getDefaultCppProperties (platform host)))"
    by (simp add: resetToDefaultSettings_fields index_in_range_def getDefaultCppProperties_def)
  from part1 part2 reset t(3) show ?thesis by auto
qed

theorem reconciliation_index_in_range_witness:
  "reparsed = Returns (state_of reparsed)
   \<and> index_before_normalization (linux_host\<lparr>readFileSync := Some two_configurations_text\<rparr>)
         (loaded_state\<lparr>currentConfigurationIndex := 5\<rparr>) = 5
   \<and> map config_name (configurations_of reparsed) = [''Linux'', ''Release'']
   \<and> currentConfigurationIndex (state_of reparsed) = 0
   \<and> index_in_range (currentConfigurationIndex (state_of reparsed)) (configurations_of reparsed)"
proof -
  let ?host = "linux_host\<lparr>readFileSync := Some two_configurations_text\<rparr>"
  let ?st = "loaded_state\<lparr>currentConfigurationIndex := 5\<rparr>"
  have ret: "handleConfigurationChange ?host ?st = Returns (state_of reparsed)"
    by code_simp
  have present: "propertiesFile ?st \<noteq> None"
    by (simp add: loaded_state_def)
  have ev: "index_before_normalization ?host ?st = 5"
    "map config_name (configurations_of reparsed) = [''Linux'', ''Release'']"
    "currentConfigurationIndex (state_of reparsed) = 0"
    by code_simp+
  from reconciliation_index_in_range [OF ret, of False] present obtain doc' where
    d: "configurationJson (state_of reparsed) = Object doc'"
       "configurations doc' \<noteq> []
        \<longrightarrow> index_in_range (currentConfigurationIndex (state_of reparsed)) (configurations doc')"
    by blast
  have c: "configurations_of reparsed = configurations doc'"
    by (simp add: configurations_of_def d(1))
  with ev(2) have "configurations doc' \<noteq> []" by auto
  with d(2) c have "index_in_range (currentConfigurationIndex (state_of reparsed))
                      (configurations_of reparsed)"
    by simp
  moreover have "reparsed = Returns (state_of reparsed)"
    by code_simp
  ultimately show ?thesis using ev by simp
qed

text \<open>
  C3 as it is stated fails in two ways. With Release selected at index 2 of three
  configurations and the file rewritten to hold Linux and Release, the stored index is
  beyond the new list, yet it is not replaced by the index of the platform's
  configuration (Linux, at 0): the parse has moved it to Release, at 1. And in a store
  without a properties file, an index that \<open>select\<close> has put beyond the list is still
  there after the reconciliation: 7, with one configuration.
\<close>

theorem reconciliation_index_counterexample:
  "currentConfigurationIndex loaded_state = 2
   \<and> reparsed_with_selection = Returns (state_of reparsed_with_selection)
   \<and> map config_name (configurations_of reparsed_with_selection) = [''Linux'', ''Release'']
   \<and> platform_name (platform linux_host) = ''Linux''
   \<and> currentConfigurationIndex (state_of reparsed_with_selection) = 1
   \<and> selected_without_file = Returns (state_of selected_without_file)
   \<and> map config_name (configurations_of selected_without_file) = [''Linux'']
   \<and> currentConfigurationIndex (state_of selected_without_file) = 7"
  by code_simp

end
